theory Spec2Isabelle
  imports Main
begin

section \<open>Data model (types.ts)\<close>

text \<open>
  The enums of \<^verbatim>\<open>types.ts\<close> are datatypes; the interfaces are records. The fields
  \<^verbatim>\<open>id\<close> and \<^verbatim>\<open>name\<close> occur in three interfaces, so each record prefixes
  them with its own name.
\<close>

datatype ProductType = VerticalBlinds | RollerBlinds | Curtains

datatype CurtainStyle = SWave | PinchPleat

datatype SimulationMode = Manual | Auto

record Color =
  color_id :: string
  color_name :: string
  hex :: string

record Product =
  product_id :: string
  product_name :: string
  colors :: "Color list"

record FabricCompany =
  company_id :: string
  company_name :: string
  products :: "Product list"

record ManualSelection =
  fabricCompanyId :: string
  productId :: string
  colorId :: string

record SimulationResult =
  dayImage :: "string option"
  nightImage :: "string option"
  recommendationText :: "string option"

text \<open>\<^verbatim>\<open>Record<ProductType, FabricCompany[]>\<close>: one ordered bucket per product type.\<close>

type_synonym Catalog = "ProductType \<Rightarrow> FabricCompany list"

section \<open>Seed catalog (constants.ts)\<close>

definition MOCK_DATA :: Catalog where
  "MOCK_DATA t = (case t of
     VerticalBlinds \<Rightarrow>
       [\<lparr>company_id = ''vb-fc1'', company_name = ''Sun-Kissed Fabrics'', products =
          [\<lparr>product_id = ''vb-p1'', product_name = ''Classic Vinyl'', colors =
             [\<lparr>color_id = ''vb-c1'', color_name = ''Alabaster White'', hex = ''#F0EBE3''\<rparr>,
              \<lparr>color_id = ''vb-c2'', color_name = ''Urban Grey'', hex = ''#A9A9A9''\<rparr>,
              \<lparr>color_id = ''vb-c3'', color_name = ''Coastal Beige'', hex = ''#EED9C4''\<rparr>]\<rparr>,
           \<lparr>product_id = ''vb-p2'', product_name = ''Textured Weave'', colors =
             [\<lparr>color_id = ''vb-c4'', color_name = ''Oatmeal'', hex = ''#D2B48C''\<rparr>,
              \<lparr>color_id = ''vb-c5'', color_name = ''Charcoal'', hex = ''#36454F''\<rparr>]\<rparr>]\<rparr>]
   | RollerBlinds \<Rightarrow>
       [\<lparr>company_id = ''rb-fc1'', company_name = ''Modern Shade Co.'', products =
          [\<lparr>product_id = ''rb-p1'', product_name = ''Blackout Pro'', colors =
             [\<lparr>color_id = ''rb-c1'', color_name = ''Midnight Blue'', hex = ''#003366''\<rparr>,
              \<lparr>color_id = ''rb-c2'', color_name = ''Pure White'', hex = ''#FFFFFF''\<rparr>,
              \<lparr>color_id = ''rb-c3'', color_name = ''Slate Grey'', hex = ''#708090''\<rparr>]\<rparr>,
           \<lparr>product_id = ''rb-p2'', product_name = ''Light-Filtering Linen'', colors =
             [\<lparr>color_id = ''rb-c4'', color_name = ''Natural Linen'', hex = ''#FAF0E6''\<rparr>,
              \<lparr>color_id = ''rb-c5'', color_name = ''Seafoam Green'', hex = ''#93E9BE''\<rparr>]\<rparr>]\<rparr>,
        \<lparr>company_id = ''rb-fc2'', company_name = ''Eco Weaves'', products =
          [\<lparr>product_id = ''rb-p3'', product_name = ''Recycled Fiber'', colors =
             [\<lparr>color_id = ''rb-c6'', color_name = ''Earth Brown'', hex = ''#5C4033''\<rparr>,
              \<lparr>color_id = ''rb-c7'', color_name = ''Forest Green'', hex = ''#228B22''\<rparr>]\<rparr>]\<rparr>]
   | Curtains \<Rightarrow>
       [\<lparr>company_id = ''c-fc1'', company_name = ''Drapery Dreams'', products =
          [\<lparr>product_id = ''c-p1'', product_name = ''Velvet Luxe'', colors =
             [\<lparr>color_id = ''c-c1'', color_name = ''Ruby Red'', hex = ''#9B111E''\<rparr>,
              \<lparr>color_id = ''c-c2'', color_name = ''Emerald Green'', hex = ''#50C878''\<rparr>,
              \<lparr>color_id = ''c-c3'', color_name = ''Royal Purple'', hex = ''#7851A9''\<rparr>]\<rparr>,
           \<lparr>product_id = ''c-p2'', product_name = ''Sheer Elegance'', colors =
             [\<lparr>color_id = ''c-c4'', color_name = ''Ivory Sheer'', hex = ''#FFFFF0''\<rparr>,
              \<lparr>color_id = ''c-c5'', color_name = ''Champagne Glow'', hex = ''#F7E7CE''\<rparr>]\<rparr>]\<rparr>])"

section \<open>Selection state (ConfigurationPanel in App.tsx)\<close>

text \<open>
  Reading a property of \<^verbatim>\<open>undefined\<close> throws a \<^verbatim>\<open>TypeError\<close>. The handlers
  dereference the result of \<^verbatim>\<open>Array.prototype.find\<close> and of \<^verbatim>\<open>xs[0]\<close>
  without a check (the \<^verbatim>\<open>!\<close> of TypeScript is erased at run time), so each of
  these reads is a branch that can fail. \<^const>\<open>List.find\<close> is \<^verbatim>\<open>Array.prototype.find\<close>:
  the first element that satisfies the predicate, or nothing.
\<close>

datatype js_error = TypeError

text \<open>The key of \<^verbatim>\<open>handleSelectionChange\<close>: \<^verbatim>\<open>keyof ManualSelection\<close>.\<close>

datatype SelectionKey = KFabricCompanyId | KProductId | KColorId

text \<open>\<^verbatim>\<open>{ ...manualSelection, [key]: value }\<close>\<close>

definition spreadWith :: "ManualSelection \<Rightarrow> SelectionKey \<Rightarrow> string \<Rightarrow> ManualSelection" where
  "spreadWith manualSelection key v = (case key of
     KFabricCompanyId \<Rightarrow> manualSelection\<lparr>fabricCompanyId := v\<rparr>
   | KProductId \<Rightarrow> manualSelection\<lparr>productId := v\<rparr>
   | KColorId \<Rightarrow> manualSelection\<lparr>colorId := v\<rparr>)"

text \<open>
  The first \<^verbatim>\<open>if\<close> of \<^verbatim>\<open>handleSelectionChange\<close>:
  \<^verbatim>\<open>newCompany = companies.find(c => c.id === value)!\<close>, then
  \<^verbatim>\<open>newCompany.products[0].id\<close> and \<^verbatim>\<open>newCompany.products[0].colors[0].id\<close>.
\<close>

definition cascadeCompany ::
  "FabricCompany list \<Rightarrow> string \<Rightarrow> ManualSelection \<Rightarrow> js_error + ManualSelection" where
  "cascadeCompany companies v newSelection =
     (case find (\<lambda>c. company_id c = v) companies of
        None \<Rightarrow> Inl TypeError
      | Some newCompany \<Rightarrow>
          (case products newCompany of
             [] \<Rightarrow> Inl TypeError
           | p0 # _ \<Rightarrow>
               (case colors p0 of
                  [] \<Rightarrow> Inl TypeError
                | c0 # _ \<Rightarrow>
                    Inr (newSelection\<lparr>productId := product_id p0, colorId := color_id c0\<rparr>))))"

text \<open>
  The second \<^verbatim>\<open>if\<close>: \<^verbatim>\<open>newProduct = selectedCompany!.products.find(p => p.id === value)!\<close>,
  then \<^verbatim>\<open>newProduct.colors[0].id\<close>.
\<close>

definition cascadeProduct ::
  "FabricCompany option \<Rightarrow> string \<Rightarrow> ManualSelection \<Rightarrow> js_error + ManualSelection" where
  "cascadeProduct selectedCompany v newSelection =
     (case selectedCompany of
        None \<Rightarrow> Inl TypeError
      | Some co \<Rightarrow>
          (case find (\<lambda>p. product_id p = v) (products co) of
             None \<Rightarrow> Inl TypeError
           | Some newProduct \<Rightarrow>
               (case colors newProduct of
                  [] \<Rightarrow> Inl TypeError
                | c0 # _ \<Rightarrow> Inr (newSelection\<lparr>colorId := color_id c0\<rparr>))))"

text \<open>
  \<^verbatim>\<open>handleSelectionChange(key, value)\<close> inside a panel rendered with \<^verbatim>\<open>companies\<close>
  (the bucket of the current product type) and the current \<^verbatim>\<open>manualSelection\<close>.
  \<^verbatim>\<open>Inr\<close> carries the selection handed to \<^verbatim>\<open>setManualSelection\<close>; \<^verbatim>\<open>Inl\<close> is
  the exception that escapes the handler before \<^verbatim>\<open>setManualSelection\<close> is reached.
\<close>

definition handleSelectionChange ::
  "FabricCompany list \<Rightarrow> ManualSelection \<Rightarrow> SelectionKey \<Rightarrow> string \<Rightarrow> js_error + ManualSelection" where
  "handleSelectionChange companies manualSelection key v =
     (let selectedCompany = find (\<lambda>c. company_id c = fabricCompanyId manualSelection) companies;
          newSelection = spreadWith manualSelection key v
      in case (if key = KFabricCompanyId then cascadeCompany companies v newSelection
               else Inr newSelection) of
           Inl e \<Rightarrow> Inl e
         | Inr newSelection1 \<Rightarrow>
             (if key = KProductId then cascadeProduct selectedCompany v newSelection1
              else Inr newSelection1))"

text \<open>
  A selection is a root-to-leaf path of a bucket when the three lookups that
  \<^verbatim>\<open>runManualSimulation\<close> performs on it all find something.
\<close>

definition resolveSelection ::
  "FabricCompany list \<Rightarrow> ManualSelection \<Rightarrow> (FabricCompany \<times> Product \<times> Color) option" where
  "resolveSelection companies sel =
     (case find (\<lambda>fc. company_id fc = fabricCompanyId sel) companies of
        None \<Rightarrow> None
      | Some co \<Rightarrow>
          (case find (\<lambda>p. product_id p = productId sel) (products co) of
             None \<Rightarrow> None
           | Some p \<Rightarrow>
               (case find (\<lambda>c. color_id c = colorId sel) (colors p) of
                  None \<Rightarrow> None
                | Some c \<Rightarrow> Some (co, p, c))))"

definition validSelection :: "FabricCompany list \<Rightarrow> ManualSelection \<Rightarrow> bool" where
  "validSelection companies sel = (resolveSelection companies sel \<noteq> None)"

section \<open>Navigation state (App in App.tsx)\<close>

text \<open>
  \<^verbatim>\<open>App.tsx\<close> is modelled in its version with the admin panel and the camera view
  (the one whose \<^verbatim>\<open>AppStep\<close> has \<^verbatim>\<open>'admin'\<close>).
\<close>

datatype AppStep = Upload | SelectProduct | Configure | Simulate | Result | Admin

text \<open>\<^verbatim>\<open>UploadedFile\<close>; its fields \<^verbatim>\<open>name\<close> and \<^verbatim>\<open>type\<close> are prefixed.\<close>

record UploadedFile =
  base64 :: string
  file_name :: string
  file_type :: string

text \<open>The type of \<^verbatim>\<open>activeResultView\<close>: \<^verbatim>\<open>'day' | 'night' | 'original'\<close>.\<close>

datatype ResultViewName = ViewDay | ViewNight | ViewOriginal

text \<open>
  The twelve \<^verbatim>\<open>useState\<close> cells of \<^verbatim>\<open>App\<close>, in the order of their declaration.
  \<^verbatim>\<open>null\<close> is \<^const>\<open>None\<close>.
\<close>

record Session =
  step :: AppStep
  uploadedFile :: "UploadedFile option"
  productType :: "ProductType option"
  simulationMode :: "SimulationMode option"
  manualSelection :: "ManualSelection option"
  simulationResult :: "SimulationResult option"
  isLoading :: bool
  loadingText :: string
  error :: "string option"
  activeResultView :: ResultViewName
  fabricData :: Catalog
  curtainStyle :: CurtainStyle

text \<open>The initial values handed to \<^verbatim>\<open>useState\<close>.\<close>

definition initialSession :: Session where
  "initialSession =
     \<lparr>step = Upload, uploadedFile = None, productType = None, simulationMode = None,
      manualSelection = None, simulationResult = None, isLoading = False, loadingText = [],
      error = None, activeResultView = ViewDay, fabricData = MOCK_DATA, curtainStyle = SWave\<rparr>"

definition handleReset :: "Session \<Rightarrow> Session" where
  "handleReset s =
     s\<lparr>step := Upload, uploadedFile := None, productType := None, simulationMode := None,
       manualSelection := None, simulationResult := None, isLoading := False, error := None\<rparr>"

definition handleBack :: "Session \<Rightarrow> Session" where
  "handleBack s =
     (if step s = Result then s\<lparr>step := Configure\<rparr>
      else if step s = Configure then s\<lparr>step := SelectProduct\<rparr>
      else if step s = SelectProduct \<or> step s = Admin then s\<lparr>step := Upload\<rparr>
      else s)"

definition handleImageUpload :: "UploadedFile \<Rightarrow> Session \<Rightarrow> Session" where
  "handleImageUpload file s = s\<lparr>uploadedFile := Some file, step := SelectProduct\<rparr>"

text \<open>
  \<^verbatim>\<open>handleProductSelect(type)\<close>. \<^verbatim>\<open>companies[0].products[0]\<close> and
  \<^verbatim>\<open>initialProduct.colors[0]\<close> are \<^verbatim>\<open>undefined\<close> on an empty list, and the
  next property read throws; \<^verbatim>\<open>Inl\<close> is that exception escaping the handler (what
  React then does with the two updates already queued is not modelled).
\<close>

definition handleProductSelect :: "ProductType \<Rightarrow> Session \<Rightarrow> js_error + Session" where
  "handleProductSelect type s =
     (let s1 = s\<lparr>productType := Some type, step := Configure\<rparr>;
          companies = fabricData s type
      in case companies of
           initialCompany # _ \<Rightarrow>
             (case products initialCompany of
                [] \<Rightarrow> Inl TypeError
              | initialProduct # _ \<Rightarrow>
                  (case colors initialProduct of
                     [] \<Rightarrow> Inl TypeError
                   | initialColor # _ \<Rightarrow>
                       Inr (s1\<lparr>manualSelection := Some
                              \<lparr>fabricCompanyId = company_id initialCompany,
                               productId = product_id initialProduct,
                               colorId = color_id initialColor\<rparr>\<rparr>)))
         | [] \<Rightarrow> Inr (s1\<lparr>manualSelection := None\<rparr>))"






section \<open>Remote service (services/geminiService.ts)\<close>

text \<open>
  The two functions of the service each send one \<^verbatim>\<open>generateContent\<close> request. The
  prompt of a request is a fixed text with the product type (and, for a composite, the
  colour name, the product name and day or night) spliced in, so a request is modelled
  by the values that determine it: the image, its MIME type and those values.
  \<^verbatim>\<open>RecommendationRequest\<close> goes to the text model, \<^verbatim>\<open>SimulationRequest\<close> to the
  image model; the last field of the latter is \<^verbatim>\<open>isDay\<close>.
\<close>

datatype GenRequest =
  RecommendationRequest string string ProductType
| SimulationRequest string string ProductType string string bool

text \<open>
  Of a response the service reads \<^verbatim>\<open>response.text\<close> and, of the parts of the first
  candidate, \<^verbatim>\<open>part.inlineData\<close> and its \<^verbatim>\<open>data\<close>.
\<close>

record Part =
  inlineData :: "string option"

record GenResponse =
  response_text :: string
  candidates :: "Part list list"

datatype GenOutcome = Rejected | Fulfilled GenResponse

text \<open>
  The remote model is a parameter: it answers a request knowing the requests that were
  answered before it in the same run.
\<close>

type_synonym Remote = "GenRequest list \<Rightarrow> GenRequest \<Rightarrow> GenOutcome"

text \<open>
  A call of the service returns the request it sent and how its promise settled:
  \<^verbatim>\<open>Inl\<close> the \<^verbatim>\<open>message\<close> of the \<^verbatim>\<open>Error\<close> it rejects with, \<^verbatim>\<open>Inr\<close> the value.
\<close>

definition generateRecommendation ::
  "Remote \<Rightarrow> GenRequest list \<Rightarrow> string \<Rightarrow> string \<Rightarrow> ProductType \<Rightarrow> GenRequest \<times> (string + string)" where
  "generateRecommendation remote hist imageBase64 imageMimeType pt =
     (let req = RecommendationRequest imageBase64 imageMimeType pt
      in (req,
          case remote hist req of
            Rejected \<Rightarrow> Inl ''Failed to get a recommendation from the AI. Please try again.''
          | Fulfilled response \<Rightarrow> Inr (response_text response)))"

text \<open>The \<^verbatim>\<open>for\<close> loop over the parts: the data of the first part that has \<^verbatim>\<open>inlineData\<close>.\<close>

fun firstInlineData :: "Part list \<Rightarrow> string option" where
  "firstInlineData [] = None"
| "firstInlineData (part # rest) =
     (case inlineData part of Some d \<Rightarrow> Some d | None \<Rightarrow> firstInlineData rest)"

definition simulationFailure :: "bool \<Rightarrow> string" where
  "simulationFailure isDay =
     ''Failed to generate the '' @ (if isDay then ''day'' else ''night'') @
     '' simulation. The AI might be unable to process this image.''"

text \<open>
  \<^verbatim>\<open>simulateWindowCovering\<close> has six parameters; the callers in \<^verbatim>\<open>App.tsx\<close> pass a
  seventh argument (the curtain style or \<^verbatim>\<open>null\<close>), which the function never reads.
  Everything thrown inside its \<^verbatim>\<open>try\<close> (the rejected request, the read of
  \<^verbatim>\<open>candidates[0]\<close> when there is no candidate, and its own "AI did not return an
  image" error) is caught by its \<^verbatim>\<open>catch\<close> and replaced by one message.
\<close>

definition simulateWindowCovering ::
  "Remote \<Rightarrow> GenRequest list \<Rightarrow> string \<Rightarrow> string \<Rightarrow> ProductType \<Rightarrow> string \<Rightarrow> string \<Rightarrow> bool \<Rightarrow>
   CurtainStyle option \<Rightarrow> GenRequest \<times> (string + string)" where
  "simulateWindowCovering remote hist imageBase64 imageMimeType pt colorName productName isDay unread =
     (let req = SimulationRequest imageBase64 imageMimeType pt colorName productName isDay
      in (req,
          case remote hist req of
            Rejected \<Rightarrow> Inl (simulationFailure isDay)
          | Fulfilled response \<Rightarrow>
              (case candidates response of
                 [] \<Rightarrow> Inl (simulationFailure isDay)
               | parts # _ \<Rightarrow>
                   (case firstInlineData parts of
                      Some d \<Rightarrow> Inr d
                    | None \<Rightarrow> Inl (simulationFailure isDay)))))"

section \<open>Simulation runs (runManualSimulation, runAutoSimulation in App.tsx)\<close>

text \<open>
  A run is modelled from its call to its completion with no other event in between. It
  returns the requests it sent, in order, each with the session as it stood while that
  request was pending (the state a render shows during the \<^verbatim>\<open>await\<close>), and the
  session when the run is over. The \<^verbatim>\<open>finally\<close> block is applied on both exits of
  the \<^verbatim>\<open>try\<close>.
\<close>

type_synonym Trace = "(Session \<times> GenRequest) list"

definition runManualSimulation :: "Remote \<Rightarrow> Session \<Rightarrow> Trace \<times> Session" where
  "runManualSimulation remote s =
     (case uploadedFile s of None \<Rightarrow> ([], s) | Some file \<Rightarrow>
      case productType s of None \<Rightarrow> ([], s) | Some pt \<Rightarrow>
      case manualSelection s of None \<Rightarrow> ([], s) | Some sel \<Rightarrow>
        (let s1 = s\<lparr>isLoading := True, step := Simulate, simulationResult := None\<rparr>;
             company = find (\<lambda>fc. company_id fc = fabricCompanyId sel) (fabricData s pt);
             product = (case company of None \<Rightarrow> None
                        | Some co \<Rightarrow> find (\<lambda>p. product_id p = productId sel) (products co));
             color = (case product of None \<Rightarrow> None
                      | Some p \<Rightarrow> find (\<lambda>c. color_id c = colorId sel) (colors p))
         in case (color, product) of
              (Some c, Some p) \<Rightarrow>
                (let s2 = s1\<lparr>loadingText := ''Simulating daytime view...''\<rparr>;
                     (dayReq, day) = simulateWindowCovering remote [] (base64 file) (file_type file)
                                       pt (color_name c) (product_name p) True (Some (curtainStyle s))
                 in case day of
                      Inl message \<Rightarrow>
                        ([(s2, dayReq)],
                         s2\<lparr>error := Some message, step := Configure, isLoading := False\<rparr>)
                    | Inr dayImg \<Rightarrow>
                        (let s3 = s2\<lparr>loadingText := ''Simulating nighttime view...''\<rparr>;
                             (nightReq, night) =
                                simulateWindowCovering remote [dayReq] (base64 file) (file_type file)
                                  pt (color_name c) (product_name p) False (Some (curtainStyle s))
                         in case night of
                              Inl message \<Rightarrow>
                                ([(s2, dayReq), (s3, nightReq)],
                                 s3\<lparr>error := Some message, step := Configure, isLoading := False\<rparr>)
                            | Inr nightImg \<Rightarrow>
                                ([(s2, dayReq), (s3, nightReq)],
                                 s3\<lparr>simulationResult := Some
                                       \<lparr>dayImage = Some dayImg, nightImage = Some nightImg,
                                        recommendationText = None\<rparr>,
                                    step := Result, activeResultView := ViewDay,
                                    isLoading := False\<rparr>)))
            | _ \<Rightarrow>
                ([], s1\<lparr>error := Some ''Could not find product details.'', isLoading := False,
                        step := Configure\<rparr>)))"

text \<open>\<^verbatim>\<open>productType === ProductType.Curtains ? curtainStyle : null\<close>\<close>

definition styleArgument :: "ProductType \<Rightarrow> CurtainStyle \<Rightarrow> CurtainStyle option" where
  "styleArgument pt style = (if pt = Curtains then Some style else None)"

definition runAutoSimulation :: "Remote \<Rightarrow> Session \<Rightarrow> Trace \<times> Session" where
  "runAutoSimulation remote s =
     (case uploadedFile s of None \<Rightarrow> ([], s) | Some file \<Rightarrow>
      case productType s of None \<Rightarrow> ([], s) | Some pt \<Rightarrow>
        (let s1 = s\<lparr>isLoading := True, step := Simulate, simulationResult := None\<rparr>;
             s2 = s1\<lparr>loadingText := ''Generating AI recommendation...''\<rparr>;
             (recReq, rec) = generateRecommendation remote [] (base64 file) (file_type file) pt
         in case rec of
              Inl message \<Rightarrow>
                ([(s2, recReq)],
                 s2\<lparr>error := Some message, step := Configure, isLoading := False\<rparr>)
            | Inr recommendation \<Rightarrow>
                (let s3 = s2\<lparr>loadingText := ''Simulating daytime view...''\<rparr>;
                     (dayReq, day) =
                        simulateWindowCovering remote [recReq] (base64 file) (file_type file) pt
                          ''AI suggested color'' ''AI suggested style'' True
                          (styleArgument pt (curtainStyle s))
                 in case day of
                      Inl message \<Rightarrow>
                        ([(s2, recReq), (s3, dayReq)],
                         s3\<lparr>error := Some message, step := Configure, isLoading := False\<rparr>)
                    | Inr dayImg \<Rightarrow>
                        (let s4 = s3\<lparr>loadingText := ''Simulating nighttime view...''\<rparr>;
                             (nightReq, night) =
                                simulateWindowCovering remote [recReq, dayReq] (base64 file)
                                  (file_type file) pt ''AI suggested color'' ''AI suggested style''
                                  False (styleArgument pt (curtainStyle s))
                         in case night of
                              Inl message \<Rightarrow>
                                ([(s2, recReq), (s3, dayReq), (s4, nightReq)],
                                 s4\<lparr>error := Some message, step := Configure, isLoading := False\<rparr>)
                            | Inr nightImg \<Rightarrow>
                                ([(s2, recReq), (s3, dayReq), (s4, nightReq)],
                                 s4\<lparr>simulationResult := Some
                                       \<lparr>dayImage = Some dayImg, nightImage = Some nightImg,
                                        recommendationText = Some recommendation\<rparr>,
                                    step := Result, activeResultView := ViewDay,
                                    isLoading := False\<rparr>)))))"

definition handleModeSelect :: "Remote \<Rightarrow> SimulationMode \<Rightarrow> Session \<Rightarrow> Trace \<times> Session" where
  "handleModeSelect remote mode s =
     (let s1 = s\<lparr>simulationMode := Some mode\<rparr>
      in if mode = Auto then runAutoSimulation remote s1 else ([], s1))"

section \<open>Catalog editing (AdminPanel in App.tsx)\<close>

text \<open>
  The handlers copy the catalog (\<^verbatim>\<open>JSON.parse(JSON.stringify(fabricData))\<close>), look an
  entry up with \<^verbatim>\<open>find\<close> and push onto a list of the entry found, so the change lands
  in the first entry of the list that has the id.
\<close>

fun updateFirst :: "('a \<Rightarrow> bool) \<Rightarrow> ('a \<Rightarrow> 'a) \<Rightarrow> 'a list \<Rightarrow> 'a list" where
  "updateFirst P f [] = []"
| "updateFirst P f (x # xs) = (if P x then f x # xs else x # updateFirst P f xs)"

text \<open>
  \<^verbatim>\<open>handleAddColor(companyId, productId)\<close> with the tab \<^verbatim>\<open>activeTab\<close> open. The
  answers of the two \<^verbatim>\<open>prompt\<close> calls are parameters (\<^const>\<open>None\<close> when the dialog
  is cancelled; the second dialog only opens after a non-empty first answer), and so is
  \<^verbatim>\<open>now\<close>, the decimal text of \<^verbatim>\<open>Date.now()\<close>. The result is what the handler
  throws, if anything (reading \<^verbatim>\<open>company.products\<close> or \<^verbatim>\<open>product.colors\<close> of
  \<^verbatim>\<open>undefined\<close>), and the catalog state afterwards: the one given unless
  \<^verbatim>\<open>setFabricData\<close> is reached. The parameter \<^verbatim>\<open>productId\<close> is written
  \<^verbatim>\<open>productId0\<close>, the plain name being the field of the selection.
\<close>

definition handleAddColor ::
  "Catalog \<Rightarrow> ProductType \<Rightarrow> string option \<Rightarrow> string option \<Rightarrow> string \<Rightarrow> string \<Rightarrow> string \<Rightarrow>
   js_error option \<times> Catalog" where
  "handleAddColor fabricData0 activeTab nameAnswer hexAnswer now companyId productId0 =
     (case nameAnswer of None \<Rightarrow> (None, fabricData0) | Some colorName \<Rightarrow>
      if colorName = [] then (None, fabricData0) else
      case hexAnswer of None \<Rightarrow> (None, fabricData0) | Some colorHex \<Rightarrow>
      if colorHex = [] then (None, fabricData0) else
        (let newColor = \<lparr>color_id = ''c-'' @ now, color_name = colorName, hex = colorHex\<rparr>
         in case find (\<lambda>c. company_id c = companyId) (fabricData0 activeTab) of
              None \<Rightarrow> (Some TypeError, fabricData0)
            | Some company \<Rightarrow>
                (case find (\<lambda>p. product_id p = productId0) (products company) of
                   None \<Rightarrow> (Some TypeError, fabricData0)
                 | Some product \<Rightarrow>
                     (None,
                      fun_upd fabricData0 activeTab
                        (updateFirst (\<lambda>c. company_id c = companyId)
                           (\<lambda>c. c\<lparr>products :=
                              updateFirst (\<lambda>p. product_id p = productId0)
                                (\<lambda>p. p\<lparr>colors := colors p @ [newColor]\<rparr>) (products c)\<rparr>)
                           (fabricData0 activeTab))))))"

section \<open>Observations of a run\<close>

text \<open>
  The requests a run sent, the stage label on screen while each was pending, and the
  steps the session went through: the step during each pending request, then the step
  when the run is over.
\<close>

definition requestsOf :: "Trace \<times> Session \<Rightarrow> GenRequest list" where
  "requestsOf run = map snd (fst run)"

definition labelsOf :: "Trace \<times> Session \<Rightarrow> string list" where
  "labelsOf run = map (\<lambda>pending. loadingText (fst pending)) (fst run)"

definition stepsOf :: "Trace \<times> Session \<Rightarrow> AppStep list" where
  "stepsOf run = map (\<lambda>pending. step (fst pending)) (fst run) @ [step (snd run)]"

text \<open>
  The requests of a run on the photo \<^verbatim>\<open>photo\<close>, and how the promise of each service
  call settles (the seventh argument of a composite call is never read, so it is left out).
\<close>

definition recommendationRequest :: "UploadedFile \<Rightarrow> ProductType \<Rightarrow> GenRequest" where
  "recommendationRequest photo pt = RecommendationRequest (base64 photo) (file_type photo) pt"

definition compositeRequest ::
  "UploadedFile \<Rightarrow> ProductType \<Rightarrow> string \<Rightarrow> string \<Rightarrow> bool \<Rightarrow> GenRequest" where
  "compositeRequest photo pt colorName productName isDay =
     SimulationRequest (base64 photo) (file_type photo) pt colorName productName isDay"

definition recommendationCall ::
  "Remote \<Rightarrow> GenRequest list \<Rightarrow> UploadedFile \<Rightarrow> ProductType \<Rightarrow> string + string" where
  "recommendationCall remote hist photo pt =
     snd (generateRecommendation remote hist (base64 photo) (file_type photo) pt)"

definition compositeCall ::
  "Remote \<Rightarrow> GenRequest list \<Rightarrow> UploadedFile \<Rightarrow> ProductType \<Rightarrow> string \<Rightarrow> string \<Rightarrow> bool \<Rightarrow>
   string + string" where
  "compositeCall remote hist photo pt colorName productName isDay =
     snd (simulateWindowCovering remote hist (base64 photo) (file_type photo) pt
            colorName productName isDay None)"

section \<open>Example sessions and remote models\<close>

definition windowPhoto :: UploadedFile where
  "windowPhoto = \<lparr>base64 = ''/9j/4AAQSkZJRg=='', file_name = ''window.jpg'', file_type = ''image/jpeg''\<rparr>"

text \<open>
  The session after the photo was uploaded and Curtains was chosen on the seed catalog,
  waiting in the configuration panel.
\<close>

definition readySession :: Session where
  "readySession =
     initialSession\<lparr>step := Configure, uploadedFile := Some windowPhoto,
       productType := Some Curtains,
       manualSelection := Some
         \<lparr>fabricCompanyId = ''c-fc1'', productId = ''c-p1'', colorId = ''c-c1''\<rparr>\<rparr>"

text \<open>The same session with a selection whose colour id names no colour of the product.\<close>

definition staleSession :: Session where
  "staleSession =
     readySession\<lparr>manualSelection := Some
       \<lparr>fabricCompanyId = ''c-fc1'', productId = ''c-p1'', colorId = ''c-c9''\<rparr>\<rparr>"

definition imageResponse :: GenResponse where
  "imageResponse =
     \<lparr>response_text = [], candidates = [[\<lparr>inlineData = None\<rparr>, \<lparr>inlineData = Some ''iVBORw0KGgo=''\<rparr>]]\<rparr>"

text \<open>A remote model that answers every request with an image.\<close>

definition imageRemote :: Remote where
  "imageRemote hist req = Fulfilled imageResponse"

text \<open>A remote model that writes a recommendation and renders the day view, but never the night view.\<close>

definition noNightRemote :: Remote where
  "noNightRemote hist req = (case req of
     RecommendationRequest _ _ _ \<Rightarrow>
       Fulfilled \<lparr>response_text = ''Ivory sheers would soften this room.'', candidates = []\<rparr>
   | SimulationRequest _ _ _ _ _ isDay \<Rightarrow> if isDay then Fulfilled imageResponse else Rejected)"

text \<open>A remote model that writes a recommendation and rejects every composite.\<close>

definition recommendationOnlyRemote :: Remote where
  "recommendationOnlyRemote hist req = (case req of
     RecommendationRequest _ _ _ \<Rightarrow>
       Fulfilled \<lparr>response_text = ''Ivory sheers would soften this room.'', candidates = []\<rparr>
   | SimulationRequest _ _ _ _ _ _ \<Rightarrow> Rejected)"

text \<open>A remote model that rejects every request.\<close>

definition offlineRemote :: Remote where
  "offlineRemote hist req = Rejected"

section \<open>Example catalogs\<close>

text \<open>
  The Roller Blinds bucket of the seed after \<^verbatim>\<open>handleAddCompany\<close> has pushed a company
  (\<^verbatim>\<open>products: []\<close>, id \<^verbatim>\<open>fc-\<close> and a time stamp) onto it.
\<close>

definition bucketWithNewCompany :: "FabricCompany list" where
  "bucketWithNewCompany =
     MOCK_DATA RollerBlinds @
       [\<lparr>company_id = ''fc-1730000000000'', company_name = ''Linen House'', products = []\<rparr>]"

text \<open>A catalog whose Curtains bucket holds one company that has no product yet.\<close>

definition catalogWithBareCompany :: Catalog where
  "catalogWithBareCompany =
     fun_upd MOCK_DATA Curtains
       [\<lparr>company_id = ''fc-1730000000000'', company_name = ''Linen House'', products = []\<rparr>]"

section \<open>The outcomes of a run\<close>

text \<open>
  One equation per way a run can go: which requests it sent, what was on screen
  meanwhile, and the session it leaves.
\<close>

lemma fst_simulateWindowCovering:
  "fst (simulateWindowCovering remote hist b m pt cn pn isDay st) = SimulationRequest b m pt cn pn isDay"
  by (simp add: simulateWindowCovering_def Let_def)

lemma fst_generateRecommendation:
  "fst (generateRecommendation remote hist b m pt) = RecommendationRequest b m pt"
  by (simp add: generateRecommendation_def Let_def)

lemma compositeCall_eq:
  "snd (simulateWindowCovering remote hist (base64 photo) (file_type photo) pt cn pn isDay st) =
     compositeCall remote hist photo pt cn pn isDay"
  by (simp add: compositeCall_def simulateWindowCovering_def Let_def)

lemma recommendationCall_eq:
  "snd (generateRecommendation remote hist (base64 photo) (file_type photo) pt) =
     recommendationCall remote hist photo pt"
  by (simp add: recommendationCall_def)

lemma resolveSelection_Some:
  "resolveSelection companies sel = Some (co, p, c) \<Longrightarrow>
     find (\<lambda>fc. company_id fc = fabricCompanyId sel) companies = Some co \<and>
     find (\<lambda>p. product_id p = productId sel) (products co) = Some p \<and>
     find (\<lambda>c. color_id c = colorId sel) (colors p) = Some c"
  by (auto simp: resolveSelection_def split: option.splits)

lemma manual_not_started:
  "uploadedFile s = None \<or> productType s = None \<or> manualSelection s = None \<Longrightarrow>
     runManualSimulation remote s = ([], s)"
  by (auto simp: runManualSimulation_def split: option.splits)

lemma manual_unresolved:
  assumes "uploadedFile s = Some photo" "productType s = Some pt" "manualSelection s = Some sel"
    and "resolveSelection (fabricData s pt) sel = None"
  shows "runManualSimulation remote s =
           ([], s\<lparr>step := Configure, simulationResult := None, isLoading := False,
                  error := Some ''Could not find product details.''\<rparr>)"
  using assms
  by (auto simp: runManualSimulation_def resolveSelection_def Let_def split: option.splits)

lemma manual_day_failure:
  assumes "uploadedFile s = Some photo" "productType s = Some pt" "manualSelection s = Some sel"
    and "resolveSelection (fabricData s pt) sel = Some (co, p, c)"
    and "compositeCall remote [] photo pt (color_name c) (product_name p) True = Inl message"
  shows "runManualSimulation remote s =
           ([(s\<lparr>isLoading := True, step := Simulate, simulationResult := None,
                 loadingText := ''Simulating daytime view...''\<rparr>,
              compositeRequest photo pt (color_name c) (product_name p) True)],
            s\<lparr>isLoading := False, step := Configure, simulationResult := None,
              loadingText := ''Simulating daytime view...'', error := Some message\<rparr>)"
  using assms(1-3) assms(5-) resolveSelection_Some [OF assms(4)]
  by (simp add: runManualSimulation_def Let_def split_beta fst_simulateWindowCovering
      compositeCall_eq compositeRequest_def)

lemma manual_night_failure:
  assumes "uploadedFile s = Some photo" "productType s = Some pt" "manualSelection s = Some sel"
    and "resolveSelection (fabricData s pt) sel = Some (co, p, c)"
    and "compositeCall remote [] photo pt (color_name c) (product_name p) True = Inr dayImg"
    and "compositeCall remote [compositeRequest photo pt (color_name c) (product_name p) True]
           photo pt (color_name c) (product_name p) False = Inl message"
  shows "runManualSimulation remote s =
           ([(s\<lparr>isLoading := True, step := Simulate, simulationResult := None,
                 loadingText := ''Simulating daytime view...''\<rparr>,
              compositeRequest photo pt (color_name c) (product_name p) True),
             (s\<lparr>isLoading := True, step := Simulate, simulationResult := None,
                 loadingText := ''Simulating nighttime view...''\<rparr>,
              compositeRequest photo pt (color_name c) (product_name p) False)],
            s\<lparr>isLoading := False, step := Configure, simulationResult := None,
              loadingText := ''Simulating nighttime view...'', error := Some message\<rparr>)"
  using assms(1-3) assms(5-) resolveSelection_Some [OF assms(4)]
  by (simp add: runManualSimulation_def Let_def split_beta fst_simulateWindowCovering
      compositeCall_eq compositeRequest_def)

lemma manual_success:
  assumes "uploadedFile s = Some photo" "productType s = Some pt" "manualSelection s = Some sel"
    and "resolveSelection (fabricData s pt) sel = Some (co, p, c)"
    and "compositeCall remote [] photo pt (color_name c) (product_name p) True = Inr dayImg"
    and "compositeCall remote [compositeRequest photo pt (color_name c) (product_name p) True]
           photo pt (color_name c) (product_name p) False = Inr nightImg"
  shows "runManualSimulation remote s =
           ([(s\<lparr>isLoading := True, step := Simulate, simulationResult := None,
                 loadingText := ''Simulating daytime view...''\<rparr>,
              compositeRequest photo pt (color_name c) (product_name p) True),
             (s\<lparr>isLoading := True, step := Simulate, simulationResult := None,
                 loadingText := ''Simulating nighttime view...''\<rparr>,
              compositeRequest photo pt (color_name c) (product_name p) False)],
            s\<lparr>isLoading := False, step := Result,
              simulationResult := Some \<lparr>dayImage = Some dayImg, nightImage = Some nightImg,
                                        recommendationText = None\<rparr>,
              loadingText := ''Simulating nighttime view...'', activeResultView := ViewDay\<rparr>)"
  using assms(1-3) assms(5-) resolveSelection_Some [OF assms(4)]
  by (simp add: runManualSimulation_def Let_def split_beta fst_simulateWindowCovering
      compositeCall_eq compositeRequest_def)

lemma auto_not_started:
  "uploadedFile s = None \<or> productType s = None \<Longrightarrow> runAutoSimulation remote s = ([], s)"
  by (auto simp: runAutoSimulation_def split: option.splits)

lemma auto_recommendation_failure:
  assumes "uploadedFile s = Some photo" "productType s = Some pt"
    and "recommendationCall remote [] photo pt = Inl message"
  shows "runAutoSimulation remote s =
           ([(s\<lparr>isLoading := True, step := Simulate, simulationResult := None,
                 loadingText := ''Generating AI recommendation...''\<rparr>,
              recommendationRequest photo pt)],
            s\<lparr>isLoading := False, step := Configure, simulationResult := None,
              loadingText := ''Generating AI recommendation...'', error := Some message\<rparr>)"
  using assms
  by (simp add: runAutoSimulation_def Let_def split_beta fst_generateRecommendation
      fst_simulateWindowCovering compositeCall_eq recommendationCall_eq compositeRequest_def
      recommendationRequest_def)

lemma auto_day_failure:
  assumes "uploadedFile s = Some photo" "productType s = Some pt"
    and "recommendationCall remote [] photo pt = Inr recommendation"
    and "compositeCall remote [recommendationRequest photo pt] photo pt
           ''AI suggested color'' ''AI suggested style'' True = Inl message"
  shows "runAutoSimulation remote s =
           ([(s\<lparr>isLoading := True, step := Simulate, simulationResult := None,
                 loadingText := ''Generating AI recommendation...''\<rparr>,
              recommendationRequest photo pt),
             (s\<lparr>isLoading := True, step := Simulate, simulationResult := None,
                 loadingText := ''Simulating daytime view...''\<rparr>,
              compositeRequest photo pt ''AI suggested color'' ''AI suggested style'' True)],
            s\<lparr>isLoading := False, step := Configure, simulationResult := None,
              loadingText := ''Simulating daytime view...'', error := Some message\<rparr>)"
  using assms
  by (simp add: runAutoSimulation_def Let_def split_beta fst_generateRecommendation
      fst_simulateWindowCovering compositeCall_eq recommendationCall_eq compositeRequest_def
      recommendationRequest_def)

lemma auto_night_failure:
  assumes "uploadedFile s = Some photo" "productType s = Some pt"
    and "recommendationCall remote [] photo pt = Inr recommendation"
    and "compositeCall remote [recommendationRequest photo pt] photo pt
           ''AI suggested color'' ''AI suggested style'' True = Inr dayImg"
    and "compositeCall remote
           [recommendationRequest photo pt,
            compositeRequest photo pt ''AI suggested color'' ''AI suggested style'' True]
           photo pt ''AI suggested color'' ''AI suggested style'' False = Inl message"
  shows "runAutoSimulation remote s =
           ([(s\<lparr>isLoading := True, step := Simulate, simulationResult := None,
                 loadingText := ''Generating AI recommendation...''\<rparr>,
              recommendationRequest photo pt),
             (s\<lparr>isLoading := True, step := Simulate, simulationResult := None,
                 loadingText := ''Simulating daytime view...''\<rparr>,
              compositeRequest photo pt ''AI suggested color'' ''AI suggested style'' True),
             (s\<lparr>isLoading := True, step := Simulate, simulationResult := None,
                 loadingText := ''Simulating nighttime view...''\<rparr>,
              compositeRequest photo pt ''AI suggested color'' ''AI suggested style'' False)],
            s\<lparr>isLoading := False, step := Configure, simulationResult := None,
              loadingText := ''Simulating nighttime view...'', error := Some message\<rparr>)"
  using assms
  by (simp add: runAutoSimulation_def Let_def split_beta fst_generateRecommendation
      fst_simulateWindowCovering compositeCall_eq recommendationCall_eq compositeRequest_def
      recommendationRequest_def)

lemma auto_success:
  assumes "uploadedFile s = Some photo" "productType s = Some pt"
    and "recommendationCall remote [] photo pt = Inr recommendation"
    and "compositeCall remote [recommendationRequest photo pt] photo pt
           ''AI suggested color'' ''AI suggested style'' True = Inr dayImg"
    and "compositeCall remote
           [recommendationRequest photo pt,
            compositeRequest photo pt ''AI suggested color'' ''AI suggested style'' True]
           photo pt ''AI suggested color'' ''AI suggested style'' False = Inr nightImg"
  shows "runAutoSimulation remote s =
           ([(s\<lparr>isLoading := True, step := Simulate, simulationResult := None,
                 loadingText := ''Generating AI recommendation...''\<rparr>,
              recommendationRequest photo pt),
             (s\<lparr>isLoading := True, step := Simulate, simulationResult := None,
                 loadingText := ''Simulating daytime view...''\<rparr>,
              compositeRequest photo pt ''AI suggested color'' ''AI suggested style'' True),
             (s\<lparr>isLoading := True, step := Simulate, simulationResult := None,
                 loadingText := ''Simulating nighttime view...''\<rparr>,
              compositeRequest photo pt ''AI suggested color'' ''AI suggested style'' False)],
            s\<lparr>isLoading := False, step := Result,
              simulationResult := Some \<lparr>dayImage = Some dayImg, nightImage = Some nightImg,
                                        recommendationText = Some recommendation\<rparr>,
              loadingText := ''Simulating nighttime view...'', activeResultView := ViewDay\<rparr>)"
  using assms
  by (simp add: runAutoSimulation_def Let_def split_beta fst_generateRecommendation
      fst_simulateWindowCovering compositeCall_eq recommendationCall_eq compositeRequest_def
      recommendationRequest_def)








text \<open>The definitions that evaluating the example sessions and remote models unfolds.\<close>

lemmas example_defs = readySession_def initialSession_def windowPhoto_def
  MOCK_DATA_def resolveSelection_def compositeCall_def compositeRequest_def
  recommendationCall_def recommendationRequest_def simulateWindowCovering_def
  generateRecommendation_def simulationFailure_def imageRemote_def noNightRemote_def
  recommendationOnlyRemote_def offlineRemote_def imageResponse_def Let_def

section \<open>Properties of the selection state\<close>

text \<open>
  C1 (as amended). Let the selection be a root-to-leaf path of the bucket.
  Setting \<^verbatim>\<open>fabricCompanyId\<close> to an id that resolves to a company with at least one
  product, the first of which has at least one colour, yields that id, the id of the
  company's first product and the id of that product's first colour. Setting
  \<^verbatim>\<open>productId\<close> to an id that resolves under the selected company to a product with
  at least one colour keeps the company, takes the new product id and resets
  \<^verbatim>\<open>colorId\<close> to the id of that product's first colour. Setting \<^verbatim>\<open>colorId\<close>
  changes that field only. In the first two cases the new selection is again a
  root-to-leaf path, so nothing of the previous parent is retained.
\<close>

theorem setField_cascade:
  assumes "validSelection companies S"
  shows "(find (\<lambda>c. company_id c = C') companies = Some co \<and> products co \<noteq> [] \<and>
            colors (hd (products co)) \<noteq> [] \<longrightarrow>
          handleSelectionChange companies S KFabricCompanyId C' =
            Inr \<lparr>fabricCompanyId = C', productId = product_id (hd (products co)),
                 colorId = color_id (hd (colors (hd (products co))))\<rparr>
          \<and> validSelection companies
               \<lparr>fabricCompanyId = C', productId = product_id (hd (products co)),
                colorId = color_id (hd (colors (hd (products co))))\<rparr>)
       \<and> (find (\<lambda>c. company_id c = fabricCompanyId S) companies = Some sc \<and>
            find (\<lambda>p. product_id p = P') (products sc) = Some np \<and> colors np \<noteq> [] \<longrightarrow>
          handleSelectionChange companies S KProductId P' =
            Inr (S\<lparr>productId := P', colorId := color_id (hd (colors np))\<rparr>)
          \<and> validSelection companies (S\<lparr>productId := P', colorId := color_id (hd (colors np))\<rparr>))
       \<and> handleSelectionChange companies S KColorId v = Inr (S\<lparr>colorId := v\<rparr>)"
proof (intro conjI impI)
  assume h: "find (\<lambda>c. company_id c = C') companies = Some co \<and> products co \<noteq> [] \<and>
            colors (hd (products co)) \<noteq> []"
  then obtain p0 ps c0 cs where "products co = p0 # ps" "colors p0 = c0 # cs"
    by (cases "products co"; cases "colors (hd (products co))") auto
  with h show "handleSelectionChange companies S KFabricCompanyId C' =
            Inr \<lparr>fabricCompanyId = C', productId = product_id (hd (products co)),
                 colorId = color_id (hd (colors (hd (products co))))\<rparr>"
    by (simp add: handleSelectionChange_def spreadWith_def cascadeCompany_def)
  from h \<open>products co = p0 # ps\<close> \<open>colors p0 = c0 # cs\<close>
  show "validSelection companies
               \<lparr>fabricCompanyId = C', productId = product_id (hd (products co)),
                colorId = color_id (hd (colors (hd (products co))))\<rparr>"
    by (simp add: validSelection_def resolveSelection_def)
next
  assume h: "find (\<lambda>c. company_id c = fabricCompanyId S) companies = Some sc \<and>
            find (\<lambda>p. product_id p = P') (products sc) = Some np \<and> colors np \<noteq> []"
  then obtain c0 cs where c: "colors np = c0 # cs"
    by (cases "colors np") auto
  with h show "handleSelectionChange companies S KProductId P' =
            Inr (S\<lparr>productId := P', colorId := color_id (hd (colors np))\<rparr>)"
    by (simp add: handleSelectionChange_def spreadWith_def cascadeProduct_def)
  from h c show "validSelection companies (S\<lparr>productId := P', colorId := color_id (hd (colors np))\<rparr>)"
    by (simp add: validSelection_def resolveSelection_def)
next
  show "handleSelectionChange companies S KColorId v = Inr (S\<lparr>colorId := v\<rparr>)"
    by (simp add: handleSelectionChange_def spreadWith_def)
qed

text \<open>The cascade on the Roller Blinds bucket of the seed catalog.\<close>

theorem setField_cascade_witness:
  "validSelection (MOCK_DATA RollerBlinds)
     \<lparr>fabricCompanyId = ''rb-fc1'', productId = ''rb-p1'', colorId = ''rb-c2''\<rparr>
   \<and> handleSelectionChange (MOCK_DATA RollerBlinds)
        \<lparr>fabricCompanyId = ''rb-fc1'', productId = ''rb-p1'', colorId = ''rb-c2''\<rparr>
        KFabricCompanyId ''rb-fc2''
      = Inr \<lparr>fabricCompanyId = ''rb-fc2'', productId = ''rb-p3'', colorId = ''rb-c6''\<rparr>
   \<and> validSelection (MOCK_DATA RollerBlinds)
        \<lparr>fabricCompanyId = ''rb-fc2'', productId = ''rb-p3'', colorId = ''rb-c6''\<rparr>
   \<and> handleSelectionChange (MOCK_DATA RollerBlinds)
        \<lparr>fabricCompanyId = ''rb-fc1'', productId = ''rb-p1'', colorId = ''rb-c2''\<rparr>
        KProductId ''rb-p2''
      = Inr \<lparr>fabricCompanyId = ''rb-fc1'', productId = ''rb-p2'', colorId = ''rb-c4''\<rparr>
   \<and> validSelection (MOCK_DATA RollerBlinds)
        \<lparr>fabricCompanyId = ''rb-fc1'', productId = ''rb-p2'', colorId = ''rb-c4''\<rparr>
   \<and> handleSelectionChange (MOCK_DATA RollerBlinds)
        \<lparr>fabricCompanyId = ''rb-fc1'', productId = ''rb-p1'', colorId = ''rb-c2''\<rparr>
        KColorId ''rb-c3''
      = Inr \<lparr>fabricCompanyId = ''rb-fc1'', productId = ''rb-p1'', colorId = ''rb-c3''\<rparr>"
proof -
  have v: "validSelection (MOCK_DATA RollerBlinds)
     \<lparr>fabricCompanyId = ''rb-fc1'', productId = ''rb-p1'', colorId = ''rb-c2''\<rparr>"
    by (simp add: validSelection_def resolveSelection_def MOCK_DATA_def)
  show ?thesis
    using v setField_cascade [OF v, of "''rb-fc2''" "MOCK_DATA RollerBlinds ! 1"
        "MOCK_DATA RollerBlinds ! 0" "''rb-p2''" "products (MOCK_DATA RollerBlinds ! 0) ! 1" "''rb-c3''"]
    by (simp add: MOCK_DATA_def)
qed

text \<open>
  C1 as stated fails: a company that is present in the bucket but has no product yet
  has no first product, and choosing it throws instead of yielding a selection.
\<close>

theorem setField_cascade_counterexample:
  "validSelection bucketWithNewCompany
     \<lparr>fabricCompanyId = ''rb-fc1'', productId = ''rb-p1'', colorId = ''rb-c2''\<rparr>
   \<and> ''fc-1730000000000'' \<in> set (map company_id bucketWithNewCompany)
   \<and> handleSelectionChange bucketWithNewCompany
        \<lparr>fabricCompanyId = ''rb-fc1'', productId = ''rb-p1'', colorId = ''rb-c2''\<rparr>
        KFabricCompanyId ''fc-1730000000000'' = Inl TypeError"
  by (simp add: bucketWithNewCompany_def MOCK_DATA_def validSelection_def resolveSelection_def
      handleSelectionChange_def spreadWith_def cascadeCompany_def)

text \<open>
  C10. Setting \<^verbatim>\<open>colorId\<close> validates nothing and cascades nothing: for every string
  the new selection is the old one with \<^verbatim>\<open>colorId\<close> replaced by that string, and so,
  on the seed catalog, a selection that was a root-to-leaf path need not remain one.
\<close>

theorem setField_colorId_verbatim:
  "handleSelectionChange companies S KColorId v = Inr (S\<lparr>colorId := v\<rparr>)
   \<and> validSelection (MOCK_DATA Curtains)
        \<lparr>fabricCompanyId = ''c-fc1'', productId = ''c-p1'', colorId = ''c-c1''\<rparr>
   \<and> handleSelectionChange (MOCK_DATA Curtains)
        \<lparr>fabricCompanyId = ''c-fc1'', productId = ''c-p1'', colorId = ''c-c1''\<rparr> KColorId ''c-c4''
      = Inr \<lparr>fabricCompanyId = ''c-fc1'', productId = ''c-p1'', colorId = ''c-c4''\<rparr>
   \<and> \<not> validSelection (MOCK_DATA Curtains)
        \<lparr>fabricCompanyId = ''c-fc1'', productId = ''c-p1'', colorId = ''c-c4''\<rparr>"
  by (simp add: handleSelectionChange_def spreadWith_def validSelection_def
      resolveSelection_def MOCK_DATA_def)

section \<open>Properties of product selection\<close>

text \<open>
  C2 (as amended). Selecting a product type stores an absent selection when the bucket
  of that type is empty; when the first company of the bucket has a product and that
  product has a colour, it stores the ids of the first company, of its first product and
  of that product's first colour. With the seed catalog, selecting Curtains stores
  \<^verbatim>\<open>c-fc1\<close>, \<^verbatim>\<open>c-p1\<close>, \<^verbatim>\<open>c-c1\<close>, and \<^verbatim>\<open>c-c1\<close> is Ruby Red.
\<close>

theorem initSelection_first_path:
  "(fabricData s t = [] \<longrightarrow>
      handleProductSelect t s =
        Inr (s\<lparr>productType := Some t, step := Configure, manualSelection := None\<rparr>))
   \<and> (fabricData s t \<noteq> [] \<and> products (hd (fabricData s t)) \<noteq> [] \<and>
        colors (hd (products (hd (fabricData s t)))) \<noteq> [] \<longrightarrow>
      handleProductSelect t s =
        Inr (s\<lparr>productType := Some t, step := Configure, manualSelection := Some
               \<lparr>fabricCompanyId = company_id (hd (fabricData s t)),
                productId = product_id (hd (products (hd (fabricData s t)))),
                colorId = color_id (hd (colors (hd (products (hd (fabricData s t))))))\<rparr>\<rparr>))
   \<and> handleProductSelect Curtains (s\<lparr>fabricData := MOCK_DATA\<rparr>) =
        Inr (s\<lparr>fabricData := MOCK_DATA, productType := Some Curtains, step := Configure,
               manualSelection := Some
                 \<lparr>fabricCompanyId = ''c-fc1'', productId = ''c-p1'', colorId = ''c-c1''\<rparr>\<rparr>)
   \<and> map_option (color_name \<circ> snd \<circ> snd) (resolveSelection (MOCK_DATA Curtains)
        \<lparr>fabricCompanyId = ''c-fc1'', productId = ''c-p1'', colorId = ''c-c1''\<rparr>) = Some ''Ruby Red''"
proof (intro conjI impI)
  assume "fabricData s t = []"
  then show "handleProductSelect t s =
        Inr (s\<lparr>productType := Some t, step := Configure, manualSelection := None\<rparr>)"
    by (simp add: handleProductSelect_def)
next
  assume h: "fabricData s t \<noteq> [] \<and> products (hd (fabricData s t)) \<noteq> [] \<and>
        colors (hd (products (hd (fabricData s t)))) \<noteq> []"
  then obtain co cs where 1: "fabricData s t = co # cs" by (cases "fabricData s t") auto
  with h obtain p ps where 2: "products co = p # ps" by (cases "products co") auto
  with h 1 obtain c ccs where 3: "colors p = c # ccs" by (cases "colors p") auto
  from 1 2 3 show "handleProductSelect t s =
        Inr (s\<lparr>productType := Some t, step := Configure, manualSelection := Some
               \<lparr>fabricCompanyId = company_id (hd (fabricData s t)),
                productId = product_id (hd (products (hd (fabricData s t)))),
                colorId = color_id (hd (colors (hd (products (hd (fabricData s t))))))\<rparr>\<rparr>)"
    by (simp add: handleProductSelect_def)
next
  show "handleProductSelect Curtains (s\<lparr>fabricData := MOCK_DATA\<rparr>) =
        Inr (s\<lparr>fabricData := MOCK_DATA, productType := Some Curtains, step := Configure,
               manualSelection := Some
                 \<lparr>fabricCompanyId = ''c-fc1'', productId = ''c-p1'', colorId = ''c-c1''\<rparr>\<rparr>)"
    by (simp add: handleProductSelect_def MOCK_DATA_def)
next
  show "map_option (color_name \<circ> snd \<circ> snd) (resolveSelection (MOCK_DATA Curtains)
        \<lparr>fabricCompanyId = ''c-fc1'', productId = ''c-p1'', colorId = ''c-c1''\<rparr>) = Some ''Ruby Red''"
    by (simp add: resolveSelection_def MOCK_DATA_def)
qed

text \<open>Both branches at concrete sessions: an emptied Curtains bucket, and Roller Blinds of the seed.\<close>

theorem initSelection_first_path_witness:
  "fabricData (initialSession\<lparr>fabricData := fun_upd MOCK_DATA Curtains []\<rparr>) Curtains = []
   \<and> handleProductSelect Curtains (initialSession\<lparr>fabricData := fun_upd MOCK_DATA Curtains []\<rparr>) =
       Inr (initialSession\<lparr>fabricData := fun_upd MOCK_DATA Curtains [],
              productType := Some Curtains, step := Configure, manualSelection := None\<rparr>)
   \<and> fabricData initialSession RollerBlinds \<noteq> []
   \<and> map_option manualSelection
        (case handleProductSelect RollerBlinds initialSession of Inl e \<Rightarrow> None | Inr s' \<Rightarrow> Some s') =
       Some (Some \<lparr>fabricCompanyId = ''rb-fc1'', productId = ''rb-p1'', colorId = ''rb-c1''\<rparr>)"
  using initSelection_first_path [of "initialSession\<lparr>fabricData := fun_upd MOCK_DATA Curtains []\<rparr>" Curtains]
    initSelection_first_path [of initialSession RollerBlinds]
  by (simp add: initialSession_def MOCK_DATA_def)

text \<open>
  C2 as stated fails: the bucket is not empty, yet no selection is stored, because the
  first company has no product and \<^verbatim>\<open>initialProduct.colors\<close> throws.
\<close>

theorem initSelection_counterexample:
  "fabricData (initialSession\<lparr>fabricData := catalogWithBareCompany\<rparr>) Curtains \<noteq> []
   \<and> handleProductSelect Curtains (initialSession\<lparr>fabricData := catalogWithBareCompany\<rparr>) =
       Inl TypeError"
  by (simp add: catalogWithBareCompany_def handleProductSelect_def initialSession_def)

section \<open>Properties of navigation\<close>

text \<open>
  C3 (as amended). Reset sets the step to upload, clears the uploaded image, the product
  type, the simulation mode, the manual selection, the simulation result and the error
  message, and sets the loading flag to false. It leaves the loading-stage label, the
  active result view, the curtain style and the catalog as they are.
\<close>

theorem handleReset_clears:
  "step (handleReset s) = Upload
   \<and> uploadedFile (handleReset s) = None
   \<and> productType (handleReset s) = None
   \<and> simulationMode (handleReset s) = None
   \<and> manualSelection (handleReset s) = None
   \<and> simulationResult (handleReset s) = None
   \<and> isLoading (handleReset s) = False
   \<and> error (handleReset s) = None
   \<and> loadingText (handleReset s) = loadingText s
   \<and> activeResultView (handleReset s) = activeResultView s
   \<and> curtainStyle (handleReset s) = curtainStyle s
   \<and> fabricData (handleReset s) = fabricData s"
  by (simp add: handleReset_def)

text \<open>
  C3 as stated fails: after a finished run and a look at the night view, reset leaves
  the stage label and the view toggle at their last values, not at the initial ones.
\<close>

theorem handleReset_counterexample:
  "loadingText (handleReset ((snd (runManualSimulation imageRemote readySession))
      \<lparr>activeResultView := ViewNight\<rparr>)) = ''Simulating nighttime view...''
   \<and> activeResultView (handleReset ((snd (runManualSimulation imageRemote readySession))
      \<lparr>activeResultView := ViewNight\<rparr>)) = ViewNight
   \<and> loadingText initialSession = []
   \<and> activeResultView initialSession = ViewDay"
  by (simp add: handleReset_def runManualSimulation_def readySession_def initialSession_def
      MOCK_DATA_def imageRemote_def imageResponse_def simulateWindowCovering_def Let_def)

text \<open>
  C6. Back never changes the uploaded image, the product type, the manual selection or
  the simulation result; the session after it differs from the one before in the step
  at most: result goes to configure, configure to select_product, select_product and
  admin to upload.
\<close>

theorem handleBack_frame:
  "uploadedFile (handleBack s) = uploadedFile s
   \<and> productType (handleBack s) = productType s
   \<and> manualSelection (handleBack s) = manualSelection s
   \<and> simulationResult (handleBack s) = simulationResult s
   \<and> handleBack s = s\<lparr>step := step (handleBack s)\<rparr>
   \<and> handleBack (s\<lparr>step := Result\<rparr>) = s\<lparr>step := Configure\<rparr>
   \<and> handleBack (s\<lparr>step := Configure\<rparr>) = s\<lparr>step := SelectProduct\<rparr>
   \<and> handleBack (s\<lparr>step := SelectProduct\<rparr>) = s\<lparr>step := Upload\<rparr>
   \<and> handleBack (s\<lparr>step := Admin\<rparr>) = s\<lparr>step := Upload\<rparr>"
  by (simp add: handleBack_def)

section \<open>Properties of the simulation runs\<close>

text \<open>
  C8 (as amended). A manual run with the uploaded image, the product type or the manual
  selection absent is a silent no-op: no request is sent and the session is unchanged.
  A manual run whose selection is present but does not resolve to a company, product
  and colour sends no request either, but it is not silent: it clears the result, sets
  the error to "Could not find product details.", and ends with the loading flag false
  and the step configure.
\<close>

theorem manual_precondition_failure:
  "(uploadedFile s = None \<or> productType s = None \<or> manualSelection s = None \<longrightarrow>
      runManualSimulation remote s = ([], s))
   \<and> (uploadedFile s = Some photo \<and> productType s = Some pt \<and> manualSelection s = Some sel \<and>
        resolveSelection (fabricData s pt) sel = None \<longrightarrow>
      requestsOf (runManualSimulation remote s) = []
      \<and> snd (runManualSimulation remote s) =
          s\<lparr>step := Configure, simulationResult := None, isLoading := False,
            error := Some ''Could not find product details.''\<rparr>)"
proof (intro conjI impI)
  assume "uploadedFile s = None \<or> productType s = None \<or> manualSelection s = None"
  then show "runManualSimulation remote s = ([], s)"
    by (rule manual_not_started)
next
  assume h: "uploadedFile s = Some photo \<and> productType s = Some pt \<and> manualSelection s = Some sel \<and>
        resolveSelection (fabricData s pt) sel = None"
  then have run: "runManualSimulation remote s =
           ([], s\<lparr>step := Configure, simulationResult := None, isLoading := False,
                  error := Some ''Could not find product details.''\<rparr>)"
    by (intro manual_unresolved) auto
  show "requestsOf (runManualSimulation remote s) = []"
    by (simp add: run requestsOf_def)
  show "snd (runManualSimulation remote s) =
          s\<lparr>step := Configure, simulationResult := None, isLoading := False,
            error := Some ''Could not find product details.''\<rparr>"
    by (simp add: run)
qed

text \<open>Both cases at concrete sessions: no selection at all, and a selection with a stale colour id.\<close>

theorem manual_precondition_failure_witness:
  "manualSelection (readySession\<lparr>manualSelection := None\<rparr>) = None
   \<and> runManualSimulation offlineRemote (readySession\<lparr>manualSelection := None\<rparr>) =
       ([], readySession\<lparr>manualSelection := None\<rparr>)
   \<and> resolveSelection (fabricData staleSession Curtains)
        \<lparr>fabricCompanyId = ''c-fc1'', productId = ''c-p1'', colorId = ''c-c9''\<rparr> = None
   \<and> requestsOf (runManualSimulation offlineRemote staleSession) = []
   \<and> snd (runManualSimulation offlineRemote staleSession) =
       staleSession\<lparr>step := Configure, simulationResult := None, isLoading := False,
         error := Some ''Could not find product details.''\<rparr>"
  using manual_precondition_failure [where s = "readySession\<lparr>manualSelection := None\<rparr>"
      and remote = offlineRemote]
    manual_precondition_failure [of staleSession offlineRemote windowPhoto Curtains
      "\<lparr>fabricCompanyId = ''c-fc1'', productId = ''c-p1'', colorId = ''c-c9''\<rparr>"]
  by (simp add: staleSession_def readySession_def initialSession_def MOCK_DATA_def
      resolveSelection_def)

text \<open>
  C8 as stated fails: with a selection that does not resolve, the run changes the
  session, setting an error where there was none.
\<close>

theorem manual_precondition_counterexample:
  "uploadedFile staleSession = Some windowPhoto
   \<and> productType staleSession = Some Curtains
   \<and> manualSelection staleSession =
       Some \<lparr>fabricCompanyId = ''c-fc1'', productId = ''c-p1'', colorId = ''c-c9''\<rparr>
   \<and> resolveSelection (fabricData staleSession Curtains)
        \<lparr>fabricCompanyId = ''c-fc1'', productId = ''c-p1'', colorId = ''c-c9''\<rparr> = None
   \<and> error staleSession = None
   \<and> error (snd (runManualSimulation offlineRemote staleSession)) =
       Some ''Could not find product details.''"
  by (simp add: staleSession_def readySession_def initialSession_def MOCK_DATA_def
      resolveSelection_def runManualSimulation_def Let_def)

text \<open>
  C4. In a manual run whose day composite call succeeds and whose night composite call
  fails, exactly the day request and then the night request were sent, the simulation
  result is unset, the error is the message of the failure, and the step is configure.
  More generally, in either kind of run the failing call is the last request sent, the
  result is unset, the error is the message of the failure and the step is configure:
  a manual run whose day call fails, and an automatic run whose recommendation call,
  day call or night call fails.
\<close>

theorem run_failure_aborts:
  assumes "uploadedFile s = Some photo" "productType s = Some pt"
  shows
    "(manualSelection s = Some sel \<and> resolveSelection (fabricData s pt) sel = Some (co, p, c) \<and>
      compositeCall remote [] photo pt (color_name c) (product_name p) True = Inr dayImg \<and>
      compositeCall remote [compositeRequest photo pt (color_name c) (product_name p) True]
        photo pt (color_name c) (product_name p) False = Inl message \<longrightarrow>
        requestsOf (runManualSimulation remote s) =
          [compositeRequest photo pt (color_name c) (product_name p) True,
           compositeRequest photo pt (color_name c) (product_name p) False]
        \<and> simulationResult (snd (runManualSimulation remote s)) = None
        \<and> error (snd (runManualSimulation remote s)) = Some message
        \<and> step (snd (runManualSimulation remote s)) = Configure)
     \<and> (manualSelection s = Some sel \<and> resolveSelection (fabricData s pt) sel = Some (co, p, c) \<and>
      compositeCall remote [] photo pt (color_name c) (product_name p) True = Inl message \<longrightarrow>
        requestsOf (runManualSimulation remote s) =
          [compositeRequest photo pt (color_name c) (product_name p) True]
        \<and> simulationResult (snd (runManualSimulation remote s)) = None
        \<and> error (snd (runManualSimulation remote s)) = Some message
        \<and> step (snd (runManualSimulation remote s)) = Configure)
     \<and> (recommendationCall remote [] photo pt = Inl message \<longrightarrow>
        requestsOf (runAutoSimulation remote s) = [recommendationRequest photo pt]
        \<and> simulationResult (snd (runAutoSimulation remote s)) = None
        \<and> error (snd (runAutoSimulation remote s)) = Some message
        \<and> step (snd (runAutoSimulation remote s)) = Configure)
     \<and> (recommendationCall remote [] photo pt = Inr recommendation \<and>
      compositeCall remote [recommendationRequest photo pt] photo pt
        ''AI suggested color'' ''AI suggested style'' True = Inl message \<longrightarrow>
        requestsOf (runAutoSimulation remote s) =
          [recommendationRequest photo pt,
           compositeRequest photo pt ''AI suggested color'' ''AI suggested style'' True]
        \<and> simulationResult (snd (runAutoSimulation remote s)) = None
        \<and> error (snd (runAutoSimulation remote s)) = Some message
        \<and> step (snd (runAutoSimulation remote s)) = Configure)
     \<and> (recommendationCall remote [] photo pt = Inr recommendation \<and>
      compositeCall remote [recommendationRequest photo pt] photo pt
        ''AI suggested color'' ''AI suggested style'' True = Inr dayImg \<and>
      compositeCall remote
        [recommendationRequest photo pt,
         compositeRequest photo pt ''AI suggested color'' ''AI suggested style'' True] photo pt
        ''AI suggested color'' ''AI suggested style'' False = Inl message \<longrightarrow>
        requestsOf (runAutoSimulation remote s) =
          [recommendationRequest photo pt,
           compositeRequest photo pt ''AI suggested color'' ''AI suggested style'' True,
           compositeRequest photo pt ''AI suggested color'' ''AI suggested style'' False]
        \<and> simulationResult (snd (runAutoSimulation remote s)) = None
        \<and> error (snd (runAutoSimulation remote s)) = Some message
        \<and> step (snd (runAutoSimulation remote s)) = Configure)"
    (is "(?hMN \<longrightarrow> ?cMN) \<and> (?hMD \<longrightarrow> ?cMD) \<and> (?hAR \<longrightarrow> ?cAR) \<and> (?hAD \<longrightarrow> ?cAD) \<and> (?hAN \<longrightarrow> ?cAN)")
proof (intro conjI)
  show "?hMN \<longrightarrow> ?cMN"
  proof
    assume h: ?hMN
    note run = manual_night_failure [OF assms conjunct1 [OF h] conjunct1 [OF conjunct2 [OF h]]
        conjunct1 [OF conjunct2 [OF conjunct2 [OF h]]] conjunct2 [OF conjunct2 [OF conjunct2 [OF h]]]]
    show ?cMN by (simp add: run requestsOf_def)
  qed
  show "?hMD \<longrightarrow> ?cMD"
  proof
    assume h: ?hMD
    note run = manual_day_failure [OF assms conjunct1 [OF h] conjunct1 [OF conjunct2 [OF h]]
        conjunct2 [OF conjunct2 [OF h]]]
    show ?cMD by (simp add: run requestsOf_def)
  qed
  show "?hAR \<longrightarrow> ?cAR"
  proof
    assume h: ?hAR
    note run = auto_recommendation_failure [OF assms h]
    show ?cAR by (simp add: run requestsOf_def)
  qed
  show "?hAD \<longrightarrow> ?cAD"
  proof
    assume h: ?hAD
    note run = auto_day_failure [OF assms conjunct1 [OF h] conjunct2 [OF h]]
    show ?cAD by (simp add: run requestsOf_def)
  qed
  show "?hAN \<longrightarrow> ?cAN"
  proof
    assume h: ?hAN
    note run = auto_night_failure [OF assms conjunct1 [OF h] conjunct1 [OF conjunct2 [OF h]]
        conjunct2 [OF conjunct2 [OF h]]]
    show ?cAN by (simp add: run requestsOf_def)
  qed
qed

text \<open>
  The five failures at the configured session: against a remote model that never renders
  the night view, one that is offline, and one that only writes recommendations.
\<close>

theorem run_failure_aborts_witness:
  "uploadedFile readySession = Some windowPhoto
   \<and> productType readySession = Some Curtains
   \<and> compositeCall noNightRemote [] windowPhoto Curtains ''Ruby Red'' ''Velvet Luxe'' True =
       Inr ''iVBORw0KGgo=''
   \<and> compositeCall noNightRemote [compositeRequest windowPhoto Curtains ''Ruby Red'' ''Velvet Luxe'' True]
        windowPhoto Curtains ''Ruby Red'' ''Velvet Luxe'' False =
       Inl ''Failed to generate the night simulation. The AI might be unable to process this image.''
   \<and> requestsOf (runManualSimulation noNightRemote readySession) =
       [compositeRequest windowPhoto Curtains ''Ruby Red'' ''Velvet Luxe'' True,
        compositeRequest windowPhoto Curtains ''Ruby Red'' ''Velvet Luxe'' False]
   \<and> simulationResult (snd (runManualSimulation noNightRemote readySession)) = None
   \<and> error (snd (runManualSimulation noNightRemote readySession)) =
       Some ''Failed to generate the night simulation. The AI might be unable to process this image.''
   \<and> step (snd (runManualSimulation noNightRemote readySession)) = Configure
   \<and> requestsOf (runManualSimulation offlineRemote readySession) =
       [compositeRequest windowPhoto Curtains ''Ruby Red'' ''Velvet Luxe'' True]
   \<and> requestsOf (runAutoSimulation offlineRemote readySession) =
       [recommendationRequest windowPhoto Curtains]
   \<and> error (snd (runAutoSimulation offlineRemote readySession)) =
       Some ''Failed to get a recommendation from the AI. Please try again.''
   \<and> requestsOf (runAutoSimulation recommendationOnlyRemote readySession) =
       [recommendationRequest windowPhoto Curtains,
        compositeRequest windowPhoto Curtains ''AI suggested color'' ''AI suggested style'' True]
   \<and> step (snd (runAutoSimulation recommendationOnlyRemote readySession)) = Configure
   \<and> requestsOf (runAutoSimulation noNightRemote readySession) =
       [recommendationRequest windowPhoto Curtains,
        compositeRequest windowPhoto Curtains ''AI suggested color'' ''AI suggested style'' True,
        compositeRequest windowPhoto Curtains ''AI suggested color'' ''AI suggested style'' False]
   \<and> error (snd (runAutoSimulation noNightRemote readySession)) =
       Some ''Failed to generate the night simulation. The AI might be unable to process this image.''"
proof -
  have pre: "uploadedFile readySession = Some windowPhoto" "productType readySession = Some Curtains"
    by (simp_all add: readySession_def)
  have sel: "manualSelection readySession =
      Some \<lparr>fabricCompanyId = ''c-fc1'', productId = ''c-p1'', colorId = ''c-c1''\<rparr>"
    by (simp add: readySession_def)
  have res: "resolveSelection (fabricData readySession Curtains)
      \<lparr>fabricCompanyId = ''c-fc1'', productId = ''c-p1'', colorId = ''c-c1''\<rparr> =
      Some (hd (MOCK_DATA Curtains), hd (products (hd (MOCK_DATA Curtains))),
            hd (colors (hd (products (hd (MOCK_DATA Curtains))))))"
    by (simp add: example_defs)
  have names: "color_name (hd (colors (hd (products (hd (MOCK_DATA Curtains)))))) = ''Ruby Red''"
    "product_name (hd (products (hd (MOCK_DATA Curtains)))) = ''Velvet Luxe''"
    by (simp_all add: MOCK_DATA_def)
  have day: "compositeCall noNightRemote [] windowPhoto Curtains ''Ruby Red'' ''Velvet Luxe'' True =
       Inr ''iVBORw0KGgo=''"
    by (simp add: example_defs)
  have night: "compositeCall noNightRemote
        [compositeRequest windowPhoto Curtains ''Ruby Red'' ''Velvet Luxe'' True]
        windowPhoto Curtains ''Ruby Red'' ''Velvet Luxe'' False =
       Inl ''Failed to generate the night simulation. The AI might be unable to process this image.''"
    by (simp add: example_defs)
  have off: "compositeCall offlineRemote [] windowPhoto Curtains ''Ruby Red'' ''Velvet Luxe'' True =
       Inl ''Failed to generate the day simulation. The AI might be unable to process this image.''"
    by (simp add: example_defs)
  have offrec: "recommendationCall offlineRemote [] windowPhoto Curtains =
       Inl ''Failed to get a recommendation from the AI. Please try again.''"
    by (simp add: example_defs)
  have rec: "recommendationCall recommendationOnlyRemote [] windowPhoto Curtains =
       Inr ''Ivory sheers would soften this room.''"
    by (simp add: example_defs)
  have recday: "compositeCall recommendationOnlyRemote [recommendationRequest windowPhoto Curtains]
       windowPhoto Curtains ''AI suggested color'' ''AI suggested style'' True =
       Inl ''Failed to generate the day simulation. The AI might be unable to process this image.''"
    by (simp add: example_defs)
  have nnrec: "recommendationCall noNightRemote [] windowPhoto Curtains =
       Inr ''Ivory sheers would soften this room.''"
    by (simp add: example_defs)
  have nnday: "compositeCall noNightRemote [recommendationRequest windowPhoto Curtains]
       windowPhoto Curtains ''AI suggested color'' ''AI suggested style'' True = Inr ''iVBORw0KGgo=''"
    by (simp add: example_defs)
  have nnnight: "compositeCall noNightRemote
       [recommendationRequest windowPhoto Curtains,
        compositeRequest windowPhoto Curtains ''AI suggested color'' ''AI suggested style'' True]
       windowPhoto Curtains ''AI suggested color'' ''AI suggested style'' False =
       Inl ''Failed to generate the night simulation. The AI might be unable to process this image.''"
    by (simp add: example_defs)
  show ?thesis
    using pre day night
      run_failure_aborts [OF pre, where remote = noNightRemote and dayImg = "''iVBORw0KGgo=''"
        and message = "''Failed to generate the night simulation. The AI might be unable to process this image.''"
        and sel = "\<lparr>fabricCompanyId = ''c-fc1'', productId = ''c-p1'', colorId = ''c-c1''\<rparr>"
        and co = "hd (MOCK_DATA Curtains)" and p = "hd (products (hd (MOCK_DATA Curtains)))"
        and c = "hd (colors (hd (products (hd (MOCK_DATA Curtains)))))"]
      run_failure_aborts [OF pre, where remote = offlineRemote
        and message = "''Failed to generate the day simulation. The AI might be unable to process this image.''"
        and sel = "\<lparr>fabricCompanyId = ''c-fc1'', productId = ''c-p1'', colorId = ''c-c1''\<rparr>"
        and co = "hd (MOCK_DATA Curtains)" and p = "hd (products (hd (MOCK_DATA Curtains)))"
        and c = "hd (colors (hd (products (hd (MOCK_DATA Curtains)))))"]
      run_failure_aborts [OF pre, where remote = offlineRemote
        and message = "''Failed to get a recommendation from the AI. Please try again.''"]
      run_failure_aborts [OF pre, where remote = recommendationOnlyRemote
        and recommendation = "''Ivory sheers would soften this room.''"
        and message = "''Failed to generate the day simulation. The AI might be unable to process this image.''"]
      run_failure_aborts [OF pre, where remote = noNightRemote
        and recommendation = "''Ivory sheers would soften this room.''"
        and dayImg = "''iVBORw0KGgo=''"
        and message = "''Failed to generate the night simulation. The AI might be unable to process this image.''"]
      sel res names off offrec rec recday nnrec nnday nnnight
    by simp
qed

text \<open>
  C5. The requests of a run go out one after the other. A manual run that starts sends
  the day request first and the night request only when the day call has resolved with
  an image; an automatic run sends the recommendation request first, the day request
  only when the recommendation has resolved, and the night request only when the day
  call has resolved. In an automatic run whose recommendation succeeds and whose day
  composite call fails, the stage label reads "Generating AI recommendation..." and
  then "Simulating daytime view...", no night request is sent, the step is never
  result, and the error is the message of the failed composite call.
\<close>

theorem runs_sequential:
  assumes "uploadedFile s = Some photo" "productType s = Some pt"
  shows
    "(manualSelection s = Some sel \<and> resolveSelection (fabricData s pt) sel = Some (co, p, c) \<longrightarrow>
        requestsOf (runManualSimulation remote s) =
          compositeRequest photo pt (color_name c) (product_name p) True #
          (case compositeCall remote [] photo pt (color_name c) (product_name p) True of
             Inl failure \<Rightarrow> []
           | Inr dayImg \<Rightarrow> [compositeRequest photo pt (color_name c) (product_name p) False]))
     \<and> requestsOf (runAutoSimulation remote s) =
          recommendationRequest photo pt #
          (case recommendationCall remote [] photo pt of
             Inl failure \<Rightarrow> []
           | Inr recommendation \<Rightarrow>
               compositeRequest photo pt ''AI suggested color'' ''AI suggested style'' True #
               (case compositeCall remote [recommendationRequest photo pt] photo pt
                       ''AI suggested color'' ''AI suggested style'' True of
                  Inl failure \<Rightarrow> []
                | Inr dayImg \<Rightarrow>
                    [compositeRequest photo pt ''AI suggested color'' ''AI suggested style'' False]))
     \<and> (recommendationCall remote [] photo pt = Inr recommendation \<and>
         compositeCall remote [recommendationRequest photo pt] photo pt
           ''AI suggested color'' ''AI suggested style'' True = Inl message \<longrightarrow>
        labelsOf (runAutoSimulation remote s) =
          [''Generating AI recommendation...'', ''Simulating daytime view...'']
        \<and> requestsOf (runAutoSimulation remote s) =
          [recommendationRequest photo pt,
           compositeRequest photo pt ''AI suggested color'' ''AI suggested style'' True]
        \<and> stepsOf (runAutoSimulation remote s) = [Simulate, Simulate, Configure]
        \<and> Result \<notin> set (stepsOf (runAutoSimulation remote s))
        \<and> error (snd (runAutoSimulation remote s)) = Some message)"
    (is "(?hM \<longrightarrow> ?cM) \<and> ?cA \<and> (?hS \<longrightarrow> ?cS)")
proof (intro conjI)
  show "?hM \<longrightarrow> ?cM"
  proof
    assume h: ?hM
    note pre = assms conjunct1 [OF h] conjunct2 [OF h]
    show ?cM
    proof (cases "compositeCall remote [] photo pt (color_name c) (product_name p) True")
      case (Inl failure)
      show ?thesis
        by (simp add: manual_day_failure [OF pre Inl] Inl requestsOf_def)
    next
      case day: (Inr dayImg)
      show ?thesis
      proof (cases "compositeCall remote [compositeRequest photo pt (color_name c) (product_name p) True]
                      photo pt (color_name c) (product_name p) False")
        case (Inl failure)
        show ?thesis
          by (simp add: manual_night_failure [OF pre day Inl] day requestsOf_def)
      next
        case (Inr nightImg)
        show ?thesis
          by (simp add: manual_success [OF pre day Inr] day requestsOf_def)
      qed
    qed
  qed
  show ?cA
  proof (cases "recommendationCall remote [] photo pt")
    case (Inl failure)
    show ?thesis
      by (simp add: auto_recommendation_failure [OF assms Inl] Inl requestsOf_def)
  next
    case rec: (Inr recommendation)
    show ?thesis
    proof (cases "compositeCall remote [recommendationRequest photo pt] photo pt
                    ''AI suggested color'' ''AI suggested style'' True")
      case (Inl failure)
      show ?thesis
        by (simp add: auto_day_failure [OF assms rec Inl] rec Inl requestsOf_def)
    next
      case day: (Inr dayImg)
      show ?thesis
      proof (cases "compositeCall remote
                      [recommendationRequest photo pt,
                       compositeRequest photo pt ''AI suggested color'' ''AI suggested style'' True]
                      photo pt ''AI suggested color'' ''AI suggested style'' False")
        case (Inl failure)
        show ?thesis
          by (simp add: auto_night_failure [OF assms rec day Inl] rec day requestsOf_def)
      next
        case (Inr nightImg)
        show ?thesis
          by (simp add: auto_success [OF assms rec day Inr] rec day requestsOf_def)
      qed
    qed
  qed
  show "?hS \<longrightarrow> ?cS"
  proof
    assume h: ?hS
    note run = auto_day_failure [OF assms conjunct1 [OF h] conjunct2 [OF h]]
    show ?cS
      by (simp add: run requestsOf_def labelsOf_def stepsOf_def)
  qed
qed

text \<open>
  The scenario against a remote model that only writes recommendations, and the two
  manual orders against one that always renders and one that is offline.
\<close>

theorem runs_sequential_witness:
  "uploadedFile readySession = Some windowPhoto
   \<and> productType readySession = Some Curtains
   \<and> recommendationCall recommendationOnlyRemote [] windowPhoto Curtains =
       Inr ''Ivory sheers would soften this room.''
   \<and> compositeCall recommendationOnlyRemote [recommendationRequest windowPhoto Curtains]
        windowPhoto Curtains ''AI suggested color'' ''AI suggested style'' True =
       Inl ''Failed to generate the day simulation. The AI might be unable to process this image.''
   \<and> labelsOf (runAutoSimulation recommendationOnlyRemote readySession) =
       [''Generating AI recommendation...'', ''Simulating daytime view...'']
   \<and> requestsOf (runAutoSimulation recommendationOnlyRemote readySession) =
       [recommendationRequest windowPhoto Curtains,
        compositeRequest windowPhoto Curtains ''AI suggested color'' ''AI suggested style'' True]
   \<and> stepsOf (runAutoSimulation recommendationOnlyRemote readySession) =
       [Simulate, Simulate, Configure]
   \<and> error (snd (runAutoSimulation recommendationOnlyRemote readySession)) =
       Some ''Failed to generate the day simulation. The AI might be unable to process this image.''
   \<and> requestsOf (runManualSimulation imageRemote readySession) =
       [compositeRequest windowPhoto Curtains ''Ruby Red'' ''Velvet Luxe'' True,
        compositeRequest windowPhoto Curtains ''Ruby Red'' ''Velvet Luxe'' False]
   \<and> requestsOf (runManualSimulation offlineRemote readySession) =
       [compositeRequest windowPhoto Curtains ''Ruby Red'' ''Velvet Luxe'' True]"
proof -
  have pre: "uploadedFile readySession = Some windowPhoto" "productType readySession = Some Curtains"
    by (simp_all add: readySession_def)
  have sel: "manualSelection readySession =
      Some \<lparr>fabricCompanyId = ''c-fc1'', productId = ''c-p1'', colorId = ''c-c1''\<rparr>"
    by (simp add: readySession_def)
  have res: "resolveSelection (fabricData readySession Curtains)
      \<lparr>fabricCompanyId = ''c-fc1'', productId = ''c-p1'', colorId = ''c-c1''\<rparr> =
      Some (hd (MOCK_DATA Curtains), hd (products (hd (MOCK_DATA Curtains))),
            hd (colors (hd (products (hd (MOCK_DATA Curtains))))))"
    by (simp add: example_defs)
  have names: "color_name (hd (colors (hd (products (hd (MOCK_DATA Curtains)))))) = ''Ruby Red''"
    "product_name (hd (products (hd (MOCK_DATA Curtains)))) = ''Velvet Luxe''"
    by (simp_all add: MOCK_DATA_def)
  have rec: "recommendationCall recommendationOnlyRemote [] windowPhoto Curtains =
       Inr ''Ivory sheers would soften this room.''"
    by (simp add: example_defs)
  have recday: "compositeCall recommendationOnlyRemote [recommendationRequest windowPhoto Curtains]
       windowPhoto Curtains ''AI suggested color'' ''AI suggested style'' True =
       Inl ''Failed to generate the day simulation. The AI might be unable to process this image.''"
    by (simp add: example_defs)
  have img: "compositeCall imageRemote [] windowPhoto Curtains ''Ruby Red'' ''Velvet Luxe'' True =
       Inr ''iVBORw0KGgo=''"
    by (simp add: example_defs)
  have off: "compositeCall offlineRemote [] windowPhoto Curtains ''Ruby Red'' ''Velvet Luxe'' True =
       Inl ''Failed to generate the day simulation. The AI might be unable to process this image.''"
    by (simp add: example_defs)
  show ?thesis
    using pre rec recday
      runs_sequential [OF pre, where remote = recommendationOnlyRemote
        and recommendation = "''Ivory sheers would soften this room.''"
        and message = "''Failed to generate the day simulation. The AI might be unable to process this image.''"]
      runs_sequential [OF pre, where remote = imageRemote
        and sel = "\<lparr>fabricCompanyId = ''c-fc1'', productId = ''c-p1'', colorId = ''c-c1''\<rparr>"
        and co = "hd (MOCK_DATA Curtains)" and p = "hd (products (hd (MOCK_DATA Curtains)))"
        and c = "hd (colors (hd (products (hd (MOCK_DATA Curtains)))))"]
      runs_sequential [OF pre, where remote = offlineRemote
        and sel = "\<lparr>fabricCompanyId = ''c-fc1'', productId = ''c-p1'', colorId = ''c-c1''\<rparr>"
        and co = "hd (MOCK_DATA Curtains)" and p = "hd (products (hd (MOCK_DATA Curtains)))"
        and c = "hd (colors (hd (products (hd (MOCK_DATA Curtains)))))"]
      sel res names img off
    by simp
qed




section \<open>Properties of catalog editing\<close>

text \<open>Looking up after \<^const>\<open>updateFirst\<close>, and what it leaves alone.\<close>

lemma find_updateFirst:
  "(\<And>x. P x \<Longrightarrow> P (f x)) \<Longrightarrow> find P (updateFirst P f xs) = map_option f (find P xs)"
  by (induction xs) auto

lemma map_updateFirst:
  "(\<And>x. g (f x) = g x) \<Longrightarrow> map g (updateFirst P f xs) = map g xs"
  by (induction xs) auto

text \<open>
  A list in which \<^const>\<open>find\<close> finds an element splits around it, and
  \<^const>\<open>updateFirst\<close> changes that element alone.
\<close>

lemma find_Some_decomp:
  "find P xs = Some x \<Longrightarrow> \<exists>pre post. xs = pre @ x # post \<and> P x \<and> (\<forall>y \<in> set pre. \<not> P y)"
proof (induction xs)
  case Nil
  then show ?case by simp
next
  case (Cons a xs)
  show ?case
  proof (cases "P a")
    case True
    with Cons.prems have "a = x" by simp
    with True have "a # xs = [] @ x # xs \<and> P x \<and> (\<forall>y \<in> set []. \<not> P y)" by simp
    then show ?thesis by blast
  next
    case False
    with Cons.prems have "find P xs = Some x" by simp
    from Cons.IH [OF this] obtain pre post
      where "xs = pre @ x # post" "P x" "\<forall>y \<in> set pre. \<not> P y" by blast
    with False have "a # xs = (a # pre) @ x # post \<and> P x \<and> (\<forall>y \<in> set (a # pre). \<not> P y)"
      by simp
    then show ?thesis by blast
  qed
qed

lemma updateFirst_decomp:
  "\<forall>y \<in> set pre. \<not> P y \<Longrightarrow> P x \<Longrightarrow> updateFirst P f (pre @ x # post) = pre @ f x # post"
  by (induction pre) auto

lemma find_decomp:
  "\<forall>y \<in> set pre. \<not> P y \<Longrightarrow> P x \<Longrightarrow> find P (pre @ x # post) = Some x"
  by (induction pre) auto

lemma addColor_exact:
  assumes "nameAnswer = Some colorName" "colorName \<noteq> []"
    and "hexAnswer = Some colorHex" "colorHex \<noteq> []"
    and "catalog activeTab = pre @ co # post" "company_id co = companyId"
      "\<forall>c \<in> set pre. company_id c \<noteq> companyId"
    and "products co = ppre @ pr # ppost" "product_id pr = pid"
      "\<forall>p \<in> set ppre. product_id p \<noteq> pid"
  shows "handleAddColor catalog activeTab nameAnswer hexAnswer now companyId pid =
           (None, fun_upd catalog activeTab
              (pre @ co\<lparr>products := ppre @
                  pr\<lparr>colors := colors pr @
                     [\<lparr>color_id = ''c-'' @ now, color_name = colorName, hex = colorHex\<rparr>]\<rparr> # ppost\<rparr>
                # post))"
proof -
  have company: "find (\<lambda>c. company_id c = companyId) (catalog activeTab) = Some co"
    using assms(5-7) by (simp add: find_decomp)
  have product: "find (\<lambda>p. product_id p = pid) (products co) = Some pr"
    using assms(8-10) by (simp add: find_decomp)
  have inner: "updateFirst (\<lambda>p. product_id p = pid) f (products co) = ppre @ f pr # ppost" for f
    using assms(8-10) by (simp add: updateFirst_decomp)
  have outer: "updateFirst (\<lambda>c. company_id c = companyId) g (catalog activeTab) = pre @ g co # post"
    for g
    using assms(5-7) by (simp add: updateFirst_decomp)
  show ?thesis
    using assms(1-4) company product by (simp add: handleAddColor_def inner outer)
qed

text \<open>
  C7 (as amended). Once both prompts have been answered with non-empty text:
  \<^verbatim>\<open>handleAddColor\<close> called with a company id that does not resolve in the bucket of
  the active tab, or with a product id that does not resolve under that company, fails
  and leaves the catalog as it was. When both resolve, nothing fails and the catalog
  afterwards is the catalog before with one change: in the bucket of the active tab, in
  the first company with that id, in its first product with that id, the colour list
  is the old one with the new colour appended. Every other bucket, company, product
  and field is as before.
\<close>

theorem addColor_effect:
  assumes "nameAnswer = Some colorName" "colorName \<noteq> []"
    and "hexAnswer = Some colorHex" "colorHex \<noteq> []"
  shows
    "(find (\<lambda>c. company_id c = companyId) (catalog activeTab) = None \<longrightarrow>
        handleAddColor catalog activeTab nameAnswer hexAnswer now companyId pid =
          (Some TypeError, catalog))
     \<and> (find (\<lambda>c. company_id c = companyId) (catalog activeTab) = Some co \<and>
         find (\<lambda>p. product_id p = pid) (products co) = None \<longrightarrow>
        handleAddColor catalog activeTab nameAnswer hexAnswer now companyId pid =
          (Some TypeError, catalog))
     \<and> (find (\<lambda>c. company_id c = companyId) (catalog activeTab) = Some co \<and>
         find (\<lambda>p. product_id p = pid) (products co) = Some pr \<longrightarrow>
        fst (handleAddColor catalog activeTab nameAnswer hexAnswer now companyId pid) = None
        \<and> (\<forall>t. t = activeTab \<or>
              snd (handleAddColor catalog activeTab nameAnswer hexAnswer now companyId pid) t =
                catalog t)
        \<and> map company_id
             (snd (handleAddColor catalog activeTab nameAnswer hexAnswer now companyId pid) activeTab) =
           map company_id (catalog activeTab)
        \<and> map_option (map product_id \<circ> products)
             (find (\<lambda>c. company_id c = companyId)
                (snd (handleAddColor catalog activeTab nameAnswer hexAnswer now companyId pid) activeTab)) =
           Some (map product_id (products co))
        \<and> map_option (\<lambda>co'. map_option colors (find (\<lambda>p. product_id p = pid) (products co')))
             (find (\<lambda>c. company_id c = companyId)
                (snd (handleAddColor catalog activeTab nameAnswer hexAnswer now companyId pid) activeTab)) =
           Some (Some (colors pr @
             [\<lparr>color_id = ''c-'' @ now, color_name = colorName, hex = colorHex\<rparr>]))
        \<and> (\<exists>pre post ppre ppost.
              catalog activeTab = pre @ co # post
              \<and> list_all (\<lambda>c. company_id c \<noteq> companyId) pre
              \<and> products co = ppre @ pr # ppost
              \<and> list_all (\<lambda>p. product_id p \<noteq> pid) ppre
              \<and> snd (handleAddColor catalog activeTab nameAnswer hexAnswer now companyId pid) =
                  fun_upd catalog activeTab
                    (pre @ co\<lparr>products := ppre @
                        pr\<lparr>colors := colors pr @
                           [\<lparr>color_id = ''c-'' @ now, color_name = colorName, hex = colorHex\<rparr>]\<rparr>
                        # ppost\<rparr>
                      # post)))
     \<and> (catalog activeTab = pre @ co # post \<and> company_id co = companyId \<and>
         list_all (\<lambda>c. company_id c \<noteq> companyId) pre \<and>
         products co = ppre @ pr # ppost \<and> product_id pr = pid \<and>
         list_all (\<lambda>p. product_id p \<noteq> pid) ppre \<longrightarrow>
        handleAddColor catalog activeTab nameAnswer hexAnswer now companyId pid =
          (None, fun_upd catalog activeTab
             (pre @ co\<lparr>products := ppre @
                 pr\<lparr>colors := colors pr @
                    [\<lparr>color_id = ''c-'' @ now, color_name = colorName, hex = colorHex\<rparr>]\<rparr>
                 # ppost\<rparr>
               # post)))"
    (is "(?hC \<longrightarrow> ?cC) \<and> (?hP \<longrightarrow> ?cP) \<and> (?hOK \<longrightarrow> ?cFst \<and> ?cOther \<and> ?cIds \<and> ?cPids \<and> ?cColors \<and> ?cExact)
       \<and> (?hD \<longrightarrow> ?cD)")
proof (intro conjI)
  show "?hC \<longrightarrow> ?cC"
    using assms by (simp add: handleAddColor_def)
  show "?hP \<longrightarrow> ?cP"
    using assms by (simp add: handleAddColor_def)
  show "?hD \<longrightarrow> ?cD"
    using addColor_exact [where catalog = catalog and activeTab = activeTab and pre = pre and co = co
        and post = post and companyId = companyId and ppre = ppre and pr = pr and ppost = ppost
        and pid = pid and now = now, OF assms]
    by (simp add: list_all_iff)
  show "?hOK \<longrightarrow> ?cFst \<and> ?cOther \<and> ?cIds \<and> ?cPids \<and> ?cColors \<and> ?cExact"
  proof
    assume h: ?hOK
    let ?newColor = "\<lparr>color_id = ''c-'' @ now, color_name = colorName, hex = colorHex\<rparr>"
    let ?onProduct = "\<lambda>p. p\<lparr>colors := colors p @ [?newColor]\<rparr>"
    let ?onCompany = "\<lambda>c. c\<lparr>products :=
        updateFirst (\<lambda>p. product_id p = pid) ?onProduct (products c)\<rparr>"
    have run: "handleAddColor catalog activeTab nameAnswer hexAnswer now companyId pid =
        (None, fun_upd catalog activeTab
                 (updateFirst (\<lambda>c. company_id c = companyId) ?onCompany (catalog activeTab)))"
      using assms h by (simp add: handleAddColor_def)
    have company: "find (\<lambda>c. company_id c = companyId)
        (updateFirst (\<lambda>c. company_id c = companyId) ?onCompany (catalog activeTab)) =
        Some (?onCompany co)"
      using h by (simp add: find_updateFirst)
    have product: "find (\<lambda>p. product_id p = pid)
        (updateFirst (\<lambda>p. product_id p = pid) ?onProduct (products co)) = Some (?onProduct pr)"
      using h by (simp add: find_updateFirst)
    have ids: "map company_id
        (updateFirst (\<lambda>c. company_id c = companyId) ?onCompany (catalog activeTab)) =
        map company_id (catalog activeTab)"
      by (simp add: map_updateFirst)
    have pids: "map product_id
        (updateFirst (\<lambda>p. product_id p = pid) ?onProduct (products co)) =
        map product_id (products co)"
      by (simp add: map_updateFirst)
    have lookups: "?cFst \<and> ?cOther \<and> ?cIds \<and> ?cPids \<and> ?cColors"
      using company product ids pids by (simp add: run)
    from h obtain pre post where outer: "catalog activeTab = pre @ co # post"
      "company_id co = companyId" "\<forall>c \<in> set pre. company_id c \<noteq> companyId"
      using find_Some_decomp [of "\<lambda>c. company_id c = companyId" "catalog activeTab" co] by blast
    from h obtain ppre ppost where inner: "products co = ppre @ pr # ppost"
      "product_id pr = pid" "\<forall>p \<in> set ppre. product_id p \<noteq> pid"
      using find_Some_decomp [of "\<lambda>p. product_id p = pid" "products co" pr] by blast
    have "snd (handleAddColor catalog activeTab nameAnswer hexAnswer now companyId pid) =
        fun_upd catalog activeTab
          (pre @ co\<lparr>products := ppre @ pr\<lparr>colors := colors pr @ [?newColor]\<rparr> # ppost\<rparr> # post)"
      by (simp add: addColor_exact [where catalog = catalog and activeTab = activeTab, OF assms outer inner])
    with outer inner have ?cExact
      by (auto simp: list_all_iff)
    with lookups show "?cFst \<and> ?cOther \<and> ?cIds \<and> ?cPids \<and> ?cColors \<and> ?cExact"
      by blast
  qed
qed

text \<open>
  The three cases on the Curtains bucket of the seed catalog; the last gives the whole
  catalog after the colour was added.
\<close>

theorem addColor_effect_witness:
  "find (\<lambda>c. company_id c = ''nobody'') (MOCK_DATA Curtains) = None
   \<and> handleAddColor MOCK_DATA Curtains (Some ''Slate'') (Some ''#708090'') ''1730000000000''
        ''nobody'' ''c-p1'' = (Some TypeError, MOCK_DATA)
   \<and> handleAddColor MOCK_DATA Curtains (Some ''Slate'') (Some ''#708090'') ''1730000000000''
        ''c-fc1'' ''c-p9'' = (Some TypeError, MOCK_DATA)
   \<and> fst (handleAddColor MOCK_DATA Curtains (Some ''Slate'') (Some ''#708090'') ''1730000000000''
        ''c-fc1'' ''c-p2'') = None
   \<and> map_option (\<lambda>co'. map_option colors (find (\<lambda>p. product_id p = ''c-p2'') (products co')))
        (find (\<lambda>c. company_id c = ''c-fc1'')
          (snd (handleAddColor MOCK_DATA Curtains (Some ''Slate'') (Some ''#708090'')
                  ''1730000000000'' ''c-fc1'' ''c-p2'') Curtains)) =
       Some (Some [\<lparr>color_id = ''c-c4'', color_name = ''Ivory Sheer'', hex = ''#FFFFF0''\<rparr>,
                   \<lparr>color_id = ''c-c5'', color_name = ''Champagne Glow'', hex = ''#F7E7CE''\<rparr>,
                   \<lparr>color_id = ''c-1730000000000'', color_name = ''Slate'', hex = ''#708090''\<rparr>])
   \<and> handleAddColor MOCK_DATA Curtains (Some ''Slate'') (Some ''#708090'') ''1730000000000''
        ''c-fc1'' ''c-p2'' =
       (None, fun_upd MOCK_DATA Curtains
          [\<lparr>company_id = ''c-fc1'', company_name = ''Drapery Dreams'', products =
             [\<lparr>product_id = ''c-p1'', product_name = ''Velvet Luxe'', colors =
                [\<lparr>color_id = ''c-c1'', color_name = ''Ruby Red'', hex = ''#9B111E''\<rparr>,
                 \<lparr>color_id = ''c-c2'', color_name = ''Emerald Green'', hex = ''#50C878''\<rparr>,
                 \<lparr>color_id = ''c-c3'', color_name = ''Royal Purple'', hex = ''#7851A9''\<rparr>]\<rparr>,
              \<lparr>product_id = ''c-p2'', product_name = ''Sheer Elegance'', colors =
                [\<lparr>color_id = ''c-c4'', color_name = ''Ivory Sheer'', hex = ''#FFFFF0''\<rparr>,
                 \<lparr>color_id = ''c-c5'', color_name = ''Champagne Glow'', hex = ''#F7E7CE''\<rparr>,
                 \<lparr>color_id = ''c-1730000000000'', color_name = ''Slate'',
                  hex = ''#708090''\<rparr>]\<rparr>]\<rparr>])"
proof -
  have a: "Some ''Slate'' = Some ''Slate''" "''Slate'' \<noteq> []"
    "Some ''#708090'' = Some ''#708090''" "''#708090'' \<noteq> []"
    by simp_all
  have nobody: "find (\<lambda>c. company_id c = ''nobody'') (MOCK_DATA Curtains) = None"
    by (simp add: MOCK_DATA_def)
  have company: "find (\<lambda>c. company_id c = ''c-fc1'') (MOCK_DATA Curtains) =
      Some (hd (MOCK_DATA Curtains))"
    by (simp add: MOCK_DATA_def)
  have noProduct: "find (\<lambda>p. product_id p = ''c-p9'') (products (hd (MOCK_DATA Curtains))) = None"
    by (simp add: MOCK_DATA_def)
  have product: "find (\<lambda>p. product_id p = ''c-p2'') (products (hd (MOCK_DATA Curtains))) =
      Some (products (hd (MOCK_DATA Curtains)) ! 1)"
    by (simp add: MOCK_DATA_def)
  have before: "colors (products (hd (MOCK_DATA Curtains)) ! 1) =
      [\<lparr>color_id = ''c-c4'', color_name = ''Ivory Sheer'', hex = ''#FFFFF0''\<rparr>,
       \<lparr>color_id = ''c-c5'', color_name = ''Champagne Glow'', hex = ''#F7E7CE''\<rparr>]"
    by (simp add: MOCK_DATA_def)
  have bucket: "MOCK_DATA Curtains = [] @ hd (MOCK_DATA Curtains) # []"
    "company_id (hd (MOCK_DATA Curtains)) = ''c-fc1''"
    "list_all (\<lambda>c. company_id c \<noteq> ''c-fc1'') []"
    by (simp_all add: MOCK_DATA_def)
  have shelf: "products (hd (MOCK_DATA Curtains)) =
      [hd (products (hd (MOCK_DATA Curtains)))] @ (products (hd (MOCK_DATA Curtains)) ! 1) # []"
    "product_id (products (hd (MOCK_DATA Curtains)) ! 1) = ''c-p2''"
    "list_all (\<lambda>p. product_id p \<noteq> ''c-p2'') [hd (products (hd (MOCK_DATA Curtains)))]"
    by (simp_all add: MOCK_DATA_def)
  have after: "[] @ (hd (MOCK_DATA Curtains))\<lparr>products :=
        [hd (products (hd (MOCK_DATA Curtains)))] @
        (products (hd (MOCK_DATA Curtains)) ! 1)\<lparr>colors :=
           colors (products (hd (MOCK_DATA Curtains)) ! 1) @
           [\<lparr>color_id = ''c-'' @ ''1730000000000'', color_name = ''Slate'', hex = ''#708090''\<rparr>]\<rparr>
        # []\<rparr> # [] =
      [\<lparr>company_id = ''c-fc1'', company_name = ''Drapery Dreams'', products =
         [\<lparr>product_id = ''c-p1'', product_name = ''Velvet Luxe'', colors =
            [\<lparr>color_id = ''c-c1'', color_name = ''Ruby Red'', hex = ''#9B111E''\<rparr>,
             \<lparr>color_id = ''c-c2'', color_name = ''Emerald Green'', hex = ''#50C878''\<rparr>,
             \<lparr>color_id = ''c-c3'', color_name = ''Royal Purple'', hex = ''#7851A9''\<rparr>]\<rparr>,
          \<lparr>product_id = ''c-p2'', product_name = ''Sheer Elegance'', colors =
            [\<lparr>color_id = ''c-c4'', color_name = ''Ivory Sheer'', hex = ''#FFFFF0''\<rparr>,
             \<lparr>color_id = ''c-c5'', color_name = ''Champagne Glow'', hex = ''#F7E7CE''\<rparr>,
             \<lparr>color_id = ''c-1730000000000'', color_name = ''Slate'',
              hex = ''#708090''\<rparr>]\<rparr>]\<rparr>]"
    by (simp add: MOCK_DATA_def)
  note exact = addColor_effect [OF a, where companyId = "''c-fc1''" and catalog = MOCK_DATA
        and activeTab = Curtains and now = "''1730000000000''" and pid = "''c-p2''"
        and co = "hd (MOCK_DATA Curtains)" and pr = "products (hd (MOCK_DATA Curtains)) ! 1"
        and pre = "[]" and post = "[]" and ppre = "[hd (products (hd (MOCK_DATA Curtains)))]"
        and ppost = "[]"]
  have added: "handleAddColor MOCK_DATA Curtains (Some ''Slate'') (Some ''#708090'') ''1730000000000''
        ''c-fc1'' ''c-p2'' =
       (None, fun_upd MOCK_DATA Curtains
          [\<lparr>company_id = ''c-fc1'', company_name = ''Drapery Dreams'', products =
             [\<lparr>product_id = ''c-p1'', product_name = ''Velvet Luxe'', colors =
                [\<lparr>color_id = ''c-c1'', color_name = ''Ruby Red'', hex = ''#9B111E''\<rparr>,
                 \<lparr>color_id = ''c-c2'', color_name = ''Emerald Green'', hex = ''#50C878''\<rparr>,
                 \<lparr>color_id = ''c-c3'', color_name = ''Royal Purple'', hex = ''#7851A9''\<rparr>]\<rparr>,
              \<lparr>product_id = ''c-p2'', product_name = ''Sheer Elegance'', colors =
                [\<lparr>color_id = ''c-c4'', color_name = ''Ivory Sheer'', hex = ''#FFFFF0''\<rparr>,
                 \<lparr>color_id = ''c-c5'', color_name = ''Champagne Glow'', hex = ''#F7E7CE''\<rparr>,
                 \<lparr>color_id = ''c-1730000000000'', color_name = ''Slate'',
                  hex = ''#708090''\<rparr>]\<rparr>]\<rparr>])"
    using exact bucket shelf company product by (simp only: after) simp
  show ?thesis
    using addColor_effect [OF a, where companyId = "''nobody''" and catalog = MOCK_DATA
        and activeTab = Curtains and now = "''1730000000000''" and pid = "''c-p1''"]
      addColor_effect [OF a, where companyId = "''c-fc1''" and catalog = MOCK_DATA
        and activeTab = Curtains and now = "''1730000000000''" and pid = "''c-p9''"
        and co = "hd (MOCK_DATA Curtains)"]
      exact added nobody company noProduct product before
    by simp
qed

text \<open>
  C7 as stated fails: with an empty colour name the handler returns before it looks
  anything up, so a company id that does not resolve makes nothing fail.
\<close>

theorem addColor_counterexample:
  "''nobody'' \<notin> set (map company_id (MOCK_DATA Curtains))
   \<and> handleAddColor MOCK_DATA Curtains (Some []) (Some ''#708090'') ''1730000000000''
        ''nobody'' ''c-p1'' = (None, MOCK_DATA)"
  by (simp add: handleAddColor_def MOCK_DATA_def)

end
